theory Spec2Isabelle
  imports Complex_Main "HOL-Library.Sublist"
begin

section \<open>Python values and errors\<close>

text \<open>
  The SDK handles values decoded from JSON and passes them on without checking their
  types (the dataclasses of \<^verbatim>\<open>types.py\<close> are not validated at run time), so a field of
  a response object holds whatever value the body had. \<open>json\<close> is the type of these
  values: \<open>JNull\<close> is Python's \<^verbatim>\<open>None\<close>, \<open>JObj\<close> a \<^verbatim>\<open>dict\<close> with string keys, kept as an
  association list in insertion order (each key once; a lookup takes the binding
  \<open>map_of\<close> finds). A float of a decoded body is kept as the rational it denotes;
  infinities and NaN are left out.
  A \<open>string\<close> stands for a Python \<^verbatim>\<open>str\<close> whose code points are below 256, one \<open>char\<close>
  per code point.
\<close>

datatype json =
    JNull
  | JBool bool
  | JInt int
  | JFloat rat
  | JStr string
  | JArr "json list"
  | JObj "(string \<times> json) list"

text \<open>
  The exceptions of \<^verbatim>\<open>errors.py\<close>, and the built-in exceptions the modelled code can
  raise. \<open>VmpHttpError\<close> carries the dataclass fields \<^verbatim>\<open>status\<close>, \<^verbatim>\<open>error\<close>,
  \<^verbatim>\<open>raw_body_text\<close> and \<^verbatim>\<open>details\<close>, in this order. \<open>VmpHttpError\<close> and \<open>VmpTimeoutError\<close>
  are subclasses of \<open>VemorakSdkError\<close> in the source; a value built by the constructor
  \<open>VemorakSdkError\<close> here is an instance of the base class itself.
\<close>

datatype error =
    VemorakSdkError string
  | VmpHttpError int string string json
  | VmpTimeoutError string
  | KeyError string
  | TypeError
  | AttributeError
  | ValueError
  | OverflowError
  | OSError
  | JSONDecodeError
  | TransportError

definition bind_err :: "error + 'a \<Rightarrow> ('a \<Rightarrow> error + 'b) \<Rightarrow> error + 'b" where
  "bind_err m f = (case m of Inl e \<Rightarrow> Inl e | Inr v \<Rightarrow> f v)"

text \<open>\<^verbatim>\<open>ch.isspace()\<close> and the characters \<^verbatim>\<open>str.strip()\<close> removes, for code points below 256.\<close>

definition py_isspace :: "char \<Rightarrow> bool" where
  "py_isspace ch =
     ((of_char ch :: nat) \<in> {9, 10, 11, 12, 13, 28, 29, 30, 31, 32, 133, 160})"

definition py_strip :: "string \<Rightarrow> string" where
  "py_strip s = rev (dropWhile py_isspace (rev (dropWhile py_isspace s)))"

text \<open>\<^verbatim>\<open>s.rstrip("/")\<close>.\<close>

definition rstrip_slash :: "string \<Rightarrow> string" where
  "rstrip_slash s = rev (dropWhile (\<lambda>ch. ch = CHR ''/'') (rev s))"

text \<open>
  \<^verbatim>\<open>method.upper()\<close>, on the letters a to z. No other character has an upper case
  among G, E and T, which is all the comparison with \<^verbatim>\<open>"GET"\<close> reads.
\<close>

definition upper_char :: "char \<Rightarrow> char" where
  "upper_char ch =
     (let n = (of_char ch :: nat) in if 97 \<le> n \<and> n \<le> 122 then char_of (n - 32) else ch)"

definition py_upper :: "string \<Rightarrow> string" where
  "py_upper s = map upper_char s"

section \<open>validate.py\<close>

definition assert_non_empty :: "string \<Rightarrow> string \<Rightarrow> error + unit" where
  "assert_non_empty name v =
     (if py_strip v = [] then Inl (VemorakSdkError (name @ '' must be a non-empty string''))
      else Inr ())"

definition assert_tenant_id :: "string \<Rightarrow> error + unit" where
  "assert_tenant_id tenant_id =
     bind_err (assert_non_empty ''tenant_id'' tenant_id) (\<lambda>_.
       if length tenant_id > 128 then Inl (VemorakSdkError ''tenant_id must be 1..128 chars'')
       else if list_ex py_isspace tenant_id
         then Inl (VemorakSdkError ''tenant_id must not contain spaces'')
       else Inr ())"

definition assert_scope :: "string \<Rightarrow> error + unit" where
  "assert_scope scope =
     bind_err (assert_non_empty ''scope'' scope) (\<lambda>_.
       if length scope > 128 then Inl (VemorakSdkError ''scope must be 1..128 chars'')
       else if CHR '':'' \<notin> set scope
         then Inl (VemorakSdkError ''scope must contain ':' for namespacing'')
       else Inr ())"

definition assert_scope_prefix :: "string \<Rightarrow> error + unit" where
  "assert_scope_prefix scope_prefix =
     bind_err (assert_non_empty ''scope_prefix'' scope_prefix) (\<lambda>_.
       if \<not> suffix '':'' scope_prefix
         then Inl (VemorakSdkError ''scope_prefix must end with ':' (example: 'user:')'')
       else Inr ())"

definition assert_scope_matches_prefix :: "string \<Rightarrow> string \<Rightarrow> error + unit" where
  "assert_scope_matches_prefix scope scope_prefix =
     (if \<not> prefix scope_prefix scope then Inl (VemorakSdkError ''scope outside key prefix'')
      else Inr ())"

text \<open>
  The pattern \<^verbatim>\<open>^[0-9a-fA-F-]{16,}$\<close> under \<^verbatim>\<open>re.match\<close>: at least 16 characters, each
  a hexadecimal digit or a dash. Python's \<^verbatim>\<open>$\<close> also matches just before a newline that
  ends the string, so one trailing newline is accepted.
\<close>

definition hex_or_dash :: "char \<Rightarrow> bool" where
  "hex_or_dash ch =
     (let n = (of_char ch :: nat)
      in (48 \<le> n \<and> n \<le> 57) \<or> (97 \<le> n \<and> n \<le> 102) \<or> (65 \<le> n \<and> n \<le> 70) \<or> n = 45)"

definition uuid_like_match :: "string \<Rightarrow> bool" where
  "uuid_like_match v =
     (let core = (if v \<noteq> [] \<and> last v = CHR 0x0A then butlast v else v)
      in 16 \<le> length core \<and> list_all hex_or_dash core)"

definition assert_uuid_like :: "string \<Rightarrow> string \<Rightarrow> error + unit" where
  "assert_uuid_like name v =
     bind_err (assert_non_empty name v) (\<lambda>_.
       if \<not> uuid_like_match v then Inl (VemorakSdkError (name @ '' must look like a UUID''))
       else Inr ())"

text \<open>The argument has the declared type \<^verbatim>\<open>int | None\<close>, so the \<^verbatim>\<open>isinstance\<close> test passes.\<close>

definition assert_limit :: "int option \<Rightarrow> error + unit" where
  "assert_limit limit =
     (case limit of
        None \<Rightarrow> Inr ()
      | Some n \<Rightarrow>
          if n < 1 \<or> n > 500 then Inl (VemorakSdkError ''limit must be within 1..500'')
          else Inr ())"

section \<open>Python floats\<close>

text \<open>
  A Python float is an IEEE 754 double. A finite double is kept as the rational number it
  denotes, and \<open>round_float\<close> gives the double nearest to a rational: 53 bits of
  mantissa, ties to the even mantissa, the quantum never below \<open>pow2 (- 1074)\<close>, and an
  infinity once the rounded magnitude reaches \<open>pow2 1024\<close>. The modelled code produces no
  NaN.
\<close>

datatype pyfloat = Finite rat | PosInf | NegInf

text \<open>The number of binary digits of \<open>n\<close>.\<close>

fun bit_length :: "nat \<Rightarrow> nat" where
  "bit_length n = (if n = 0 then 0 else Suc (bit_length (n div 2)))"

declare bit_length.simps [simp del]

definition pow2 :: "int \<Rightarrow> rat" where
  "pow2 k = (if 0 \<le> k then 2 ^ nat k else 1 / 2 ^ nat (- k))"

text \<open>For \<open>x \<noteq> 0\<close>, the exponent \<open>e\<close> with \<open>pow2 e \<le> \<bar>x\<bar> < pow2 (e + 1)\<close>.\<close>

definition float_exponent :: "rat \<Rightarrow> int" where
  "float_exponent x =
     (if 1 \<le> \<bar>x\<bar> then int (bit_length (nat \<lfloor>\<bar>x\<bar>\<rfloor>)) - 1
      else - int (bit_length (nat (\<lceil>1 / \<bar>x\<bar>\<rceil> - 1))))"

definition round_half_even :: "rat \<Rightarrow> int" where
  "round_half_even x =
     (let f = \<lfloor>x\<rfloor>; d = x - of_int f
      in if d < 1 / 2 then f else if 1 / 2 < d then f + 1 else if even f then f else f + 1)"

definition round_float :: "rat \<Rightarrow> pyfloat" where
  "round_float x =
     (if x = 0 then Finite 0
      else let q = max (float_exponent x - 52) (- 1074);
               r = of_int (round_half_even (x / pow2 q)) * pow2 q
           in if pow2 1024 \<le> r then PosInf
              else if r \<le> - pow2 1024 then NegInf
              else Finite r)"

text \<open>The conversion of an integer to a float raises \<^verbatim>\<open>OverflowError\<close> where the nearest
  double would be an infinity.\<close>

definition int_to_float :: "int \<Rightarrow> error + rat" where
  "int_to_float n =
     (case round_float (of_int n) of Finite r \<Rightarrow> Inr r | _ \<Rightarrow> Inl OverflowError)"

text \<open>\<^verbatim>\<open>n / 1000.0\<close> for an integer \<open>n\<close>: the integer is converted, then the two floats are
  divided.\<close>

definition int_div_1000 :: "int \<Rightarrow> error + pyfloat" where
  "int_div_1000 n = bind_err (int_to_float n) (\<lambda>x. Inr (round_float (x / 1000)))"

text \<open>\<^verbatim>\<open>a + b\<close> and \<^verbatim>\<open>a > b\<close> for a finite float \<open>a\<close>.\<close>

fun float_add :: "rat \<Rightarrow> pyfloat \<Rightarrow> pyfloat" where
  "float_add a (Finite b) = round_float (a + b)"
| "float_add a PosInf = PosInf"
| "float_add a NegInf = NegInf"

fun float_gt :: "rat \<Rightarrow> pyfloat \<Rightarrow> bool" where
  "float_gt a (Finite b) = (b < a)"
| "float_gt a PosInf = False"
| "float_gt a NegInf = True"

text \<open>
  The length of a sleep in nanoseconds, as \<^verbatim>\<open>time.sleep\<close> of CPython 3.11 and later
  takes it from a float of seconds: the product with \<^verbatim>\<open>1e9\<close> is rounded away from zero to
  a whole number, which must lie in the range of a signed 64-bit integer (\<open>None\<close>
  otherwise).
\<close>

definition pytime_from_seconds :: "pyfloat \<Rightarrow> int option" where
  "pytime_from_seconds secs =
     (case secs of
        Finite s \<Rightarrow>
          (case round_float (s * 1000000000) of
             Finite d \<Rightarrow>
               (let r = (if 0 \<le> d then \<lceil>d\<rceil> else \<lfloor>d\<rfloor>)
                in if - (2 ^ 63) \<le> r \<and> r < 2 ^ 63 then Some r else None)
           | _ \<Rightarrow> None)
      | _ \<Rightarrow> None)"

section \<open>The HTTP transport\<close>

text \<open>
  The SDK talks to the server through an \<^verbatim>\<open>httpx.Client\<close>. The library is not part of
  the repository; what is modelled of it is what the SDK relies on. A client object
  keeps the base URL, the timeout and the default headers it was constructed with.
  \<^verbatim>\<open>Client.request\<close> builds the outgoing request from its arguments and the client's
  defaults, sends it, and either returns a response or raises. Headers are merged the
  way \<^verbatim>\<open>httpx\<close> documents and implements it (\<^verbatim>\<open>Client._merge_headers\<close>: a copy of the
  client's headers, updated with the headers of the call; \<^verbatim>\<open>Headers.update\<close> drops the
  keys that are given anew and appends the new entries). Header names are compared as
  written; the SDK spells each name one way only. The headers the library adds by
  itself (user agent, content type and so on) are left out.
\<close>

type_synonym headers = "(string \<times> string) list"

record http_request =
  req_method :: string
  req_base_url :: string
  req_path :: string
  req_params :: "(string \<times> json) list option"
  req_json :: "json option"
  req_headers :: headers

text \<open>
  Of a response the SDK reads \<^verbatim>\<open>status_code\<close>, \<^verbatim>\<open>text\<close> and \<^verbatim>\<open>json()\<close>; \<open>resp_json\<close> is
  \<open>None\<close> where \<^verbatim>\<open>resp.json()\<close> raises (the body is not JSON).
\<close>

record http_response =
  status_code :: int
  resp_text :: string
  resp_json :: "json option"

datatype http_reply =
    TimeoutException
  | OtherTransportFailure
  | Reply http_response

record httpx_client =
  hc_base_url :: string
  hc_timeout :: pyfloat
  hc_headers :: headers

text \<open>
  The world outside the process: the server (its reply to the \<open>n\<close>-th request sent, for
  any request), the requests sent so far in order, the wall clock (its \<open>n\<close>-th reading)
  with the number of readings taken, the sleeps done so far, each in nanoseconds, and
  the lengths in nanoseconds that the operating system refuses to sleep. A clock reading
  is the float that \<^verbatim>\<open>time.time()\<close> returns, in seconds.
\<close>

record world =
  server :: "nat \<Rightarrow> http_request \<Rightarrow> http_reply"
  sent :: "http_request list"
  clock :: "nat \<Rightarrow> rat"
  clock_reads :: nat
  sleeps :: "int list"
  sleep_refused :: "int \<Rightarrow> bool"

definition headers_update :: "headers \<Rightarrow> headers \<Rightarrow> headers" where
  "headers_update old new = filter (\<lambda>kv. map_of new (fst kv) = None) old @ new"

definition httpx_request ::
  "httpx_client \<Rightarrow> string \<Rightarrow> string \<Rightarrow> (string \<times> json) list option \<Rightarrow> json option \<Rightarrow>
     headers option \<Rightarrow> world \<Rightarrow> http_reply \<times> world" where
  "httpx_request hc method path params js hdrs w =
     (let req = \<lparr> req_method = method,
                  req_base_url = hc_base_url hc,
                  req_path = path,
                  req_params = params,
                  req_json = js,
                  req_headers =
                    (case hdrs of None \<Rightarrow> hc_headers hc
                     | Some h \<Rightarrow> headers_update (hc_headers hc) h) \<rparr>
      in (server w (length (sent w)) req, w\<lparr> sent := sent w @ [req] \<rparr>))"

text \<open>
  \<^verbatim>\<open>time.time()\<close> and \<^verbatim>\<open>time.sleep(secs)\<close>. The latter raises \<^verbatim>\<open>OverflowError\<close> when the length
  is out of range, \<^verbatim>\<open>ValueError\<close> when it is negative, and \<^verbatim>\<open>OSError\<close> when the operating
  system refuses the length, in this order.
\<close>

definition time_time :: "world \<Rightarrow> rat \<times> world" where
  "time_time w = (clock w (clock_reads w), w\<lparr> clock_reads := Suc (clock_reads w) \<rparr>)"

definition time_sleep :: "pyfloat \<Rightarrow> world \<Rightarrow> (error + unit) \<times> world" where
  "time_sleep secs w =
     (case pytime_from_seconds secs of
        None \<Rightarrow> (Inl OverflowError, w)
      | Some ns \<Rightarrow>
          if ns < 0 then (Inl ValueError, w)
          else if sleep_refused w ns then (Inl OSError, w)
          else (Inr (), w\<lparr> sleeps := sleeps w @ [ns] \<rparr>))"

section \<open>client.py: VmpClient\<close>

record vmp_client =
  vmp_base_url :: string
  vmp_api_key :: string
  vmp_tenant_guardrail :: "string option"
  vmp_scope_prefix_guardrail :: "string option"
  vmp_timeout :: pyfloat
  vmp_client :: httpx_client

text \<open>
  \<^verbatim>\<open>VmpClient.__init__\<close>; \<^verbatim>\<open>timeout_ms / 1000.0\<close> is computed after the three checks and can
  raise \<^verbatim>\<open>OverflowError\<close>. The construction of the transport client from the stored values
  is taken to succeed.
\<close>

definition VmpClient_init ::
  "string \<Rightarrow> string \<Rightarrow> string option \<Rightarrow> int \<Rightarrow> string option \<Rightarrow> error + vmp_client" where
  "VmpClient_init base_url api_key tenant_id timeout_ms scope_prefix =
     bind_err (assert_non_empty ''base_url'' base_url) (\<lambda>_.
     bind_err (assert_non_empty ''api_key'' api_key) (\<lambda>_.
     bind_err (case scope_prefix of None \<Rightarrow> Inr () | Some p \<Rightarrow> assert_scope_prefix p) (\<lambda>_.
     bind_err (int_div_1000 timeout_ms) (\<lambda>timeout.
       Inr \<lparr> vmp_base_url = rstrip_slash base_url,
             vmp_api_key = api_key,
             vmp_tenant_guardrail = tenant_id,
             vmp_scope_prefix_guardrail = scope_prefix,
             vmp_timeout = timeout,
             vmp_client =
               \<lparr> hc_base_url = rstrip_slash base_url,
                 hc_timeout = timeout,
                 hc_headers = [(''Accept'', ''application/json''),
                               (''Authorization'', ''Bearer '' @ api_key)] \<rparr> \<rparr>))))"

text \<open>\<^verbatim>\<open>VmpClient._enforce_tenant\<close>: the guardrail is tested for truth, so \<^verbatim>\<open>None\<close> and the
  empty string both switch the comparison off.\<close>

definition enforce_tenant :: "vmp_client \<Rightarrow> string \<Rightarrow> error + unit" where
  "enforce_tenant c tenant_id =
     bind_err (assert_tenant_id tenant_id) (\<lambda>_.
       case vmp_tenant_guardrail c of
         None \<Rightarrow> Inr ()
       | Some g \<Rightarrow>
           if g \<noteq> [] \<and> tenant_id \<noteq> g
             then Inl (VemorakSdkError (''tenant_id mismatch: client is configured for '' @ g
                        @ '' but request used '' @ tenant_id))
           else Inr ())"

text \<open>\<^verbatim>\<open>VmpClient._enforce_scope_prefix\<close>.\<close>

definition enforce_scope_prefix :: "vmp_client \<Rightarrow> string \<Rightarrow> error + unit" where
  "enforce_scope_prefix c scope =
     (case vmp_scope_prefix_guardrail c of
        None \<Rightarrow> Inr ()
      | Some p \<Rightarrow> assert_scope_matches_prefix scope p)"

text \<open>
  \<^verbatim>\<open>VmpClient._request_json\<close>. The headers of the call hold \<^verbatim>\<open>Authorization\<close> only when
  \<open>auth\<close> is set, and the idempotency key only when it is a non-empty string. A body is
  sent unless the method is GET. A timeout of the transport becomes \<open>VmpTimeoutError\<close>,
  any other failure of the transport propagates, and a response is classified by its
  status code.
\<close>

definition vmp_request_json ::
  "vmp_client \<Rightarrow> string \<Rightarrow> string \<Rightarrow> (string \<times> json) list option \<Rightarrow> json option \<Rightarrow>
     string option \<Rightarrow> bool \<Rightarrow> world \<Rightarrow> (error + json) \<times> world" where
  "vmp_request_json c method path query body idempotency_key auth w =
     (let headers0 = [(''Accept'', ''application/json'')];
          headers1 = (if auth
                      then headers0 @ [(''Authorization'', ''Bearer '' @ vmp_api_key c)]
                      else headers0);
          headers2 = (case idempotency_key of
                        None \<Rightarrow> headers1
                      | Some k \<Rightarrow> if k \<noteq> [] then headers1 @ [(''x-idempotency-key'', k)]
                                  else headers1)
      in case httpx_request (vmp_client c) method path query
                (if py_upper method \<noteq> ''GET'' then body else None) (Some headers2) w of
           (TimeoutException, w') \<Rightarrow> (Inl (VmpTimeoutError ''VMP request timed out''), w')
         | (OtherTransportFailure, w') \<Rightarrow> (Inl TransportError, w')
         | (Reply resp, w') \<Rightarrow>
             (let text = resp_text resp in
              if status_code resp < 200 \<or> status_code resp \<ge> 300 then
                (let fallback = (if py_strip text \<noteq> [] then py_strip text
                                 else ''unknown error'');
                     err_str = (case resp_json resp of
                                  Some (JObj kvs) \<Rightarrow>
                                    (case map_of kvs ''error'' of
                                       Some (JStr s) \<Rightarrow> s
                                     | _ \<Rightarrow> fallback)
                                | _ \<Rightarrow> fallback);
                     details = (case resp_json resp of
                                  Some (JObj kvs) \<Rightarrow>
                                    (case map_of kvs ''details'' of
                                       Some d \<Rightarrow> d
                                     | None \<Rightarrow> JNull)
                                | _ \<Rightarrow> JNull)
                 in (Inl (VmpHttpError (status_code resp) err_str text details), w'))
              else if py_strip text = [] then (Inr (JObj []), w')
              else (case resp_json resp of
                      None \<Rightarrow> (Inl JSONDecodeError, w')
                    | Some v \<Rightarrow> (Inr v, w'))))"

section \<open>Python operations on decoded values\<close>

text \<open>\<^verbatim>\<open>x[k]\<close> with a string key: a dict looks the key up, any other value raises \<^verbatim>\<open>TypeError\<close>.\<close>

fun py_getitem :: "json \<Rightarrow> string \<Rightarrow> error + json" where
  "py_getitem (JObj kvs) k = (case map_of kvs k of None \<Rightarrow> Inl (KeyError k) | Some v \<Rightarrow> Inr v)"
| "py_getitem _ k = Inl TypeError"

text \<open>\<^verbatim>\<open>x.get(k)\<close>: only a dict has the method.\<close>

fun py_get :: "json \<Rightarrow> string \<Rightarrow> error + json" where
  "py_get (JObj kvs) k = Inr (case map_of kvs k of None \<Rightarrow> JNull | Some v \<Rightarrow> v)"
| "py_get _ k = Inl AttributeError"

text \<open>Truth value testing, as \<^verbatim>\<open>bool(x)\<close> and \<^verbatim>\<open>x or y\<close> do it.\<close>

fun py_bool :: "json \<Rightarrow> bool" where
  "py_bool JNull = False"
| "py_bool (JBool b) = b"
| "py_bool (JInt n) = (n \<noteq> 0)"
| "py_bool (JFloat r) = (r \<noteq> 0)"
| "py_bool (JStr s) = (s \<noteq> [])"
| "py_bool (JArr xs) = (xs \<noteq> [])"
| "py_bool (JObj kvs) = (kvs \<noteq> [])"

definition py_or :: "json \<Rightarrow> json \<Rightarrow> json" where
  "py_or x y = (if py_bool x then x else y)"

text \<open>Iteration: a list yields its items, a dict its keys, a string its characters.\<close>

fun py_iter :: "json \<Rightarrow> error + json list" where
  "py_iter (JArr xs) = Inr xs"
| "py_iter (JObj kvs) = Inr (map (\<lambda>kv. JStr (fst kv)) kvs)"
| "py_iter (JStr s) = Inr (map (\<lambda>ch. JStr [ch]) s)"
| "py_iter _ = Inl TypeError"

text \<open>A list comprehension whose element expression can raise: the first error ends it.\<close>

fun map_err :: "('a \<Rightarrow> error + 'b) \<Rightarrow> 'a list \<Rightarrow> error + 'b list" where
  "map_err f [] = Inr []"
| "map_err f (x # xs) =
     (case f x of
        Inl e \<Rightarrow> Inl e
      | Inr y \<Rightarrow> (case map_err f xs of Inl e \<Rightarrow> Inl e | Inr ys \<Rightarrow> Inr (y # ys)))"

text \<open>Sequencing of a step that can raise with the steps after it, the world passed along.\<close>

definition bind_io ::
  "(error + 'a) \<times> world \<Rightarrow> ('a \<Rightarrow> world \<Rightarrow> (error + 'b) \<times> world) \<Rightarrow> (error + 'b) \<times> world" where
  "bind_io m f = (case m of (Inl e, w) \<Rightarrow> (Inl e, w) | (Inr v, w) \<Rightarrow> f v w)"

section \<open>Core endpoints\<close>

record ingest_response =
  ir_event_id :: json
  ir_event_hash_hex :: json
  ir_prev_hash_hex :: json
  ir_created_at :: json

text \<open>\<^verbatim>\<open>VmpClient.ingest\<close>; \<open>op\<close> is \<^verbatim>\<open>"write"\<close> when the caller leaves it out.\<close>

definition ingest ::
  "vmp_client \<Rightarrow> string \<Rightarrow> string \<Rightarrow> (string \<times> json) list \<Rightarrow> (string \<times> json) list option \<Rightarrow>
     string \<Rightarrow> string option \<Rightarrow> world \<Rightarrow> (error + ingest_response) \<times> world" where
  "ingest c tenant_id scope event_fields meta op idempotency_key w =
     bind_io (enforce_tenant c tenant_id, w) (\<lambda>_ w.
     bind_io (assert_scope scope, w) (\<lambda>_ w.
     bind_io (enforce_scope_prefix c scope, w) (\<lambda>_ w.
       let payload = JObj [(''tenant_id'', JStr tenant_id),
                           (''scope'', JStr scope),
                           (''op'', JStr op),
                           (''fields'', JObj event_fields),
                           (''meta'', JObj (case meta of None \<Rightarrow> []
                                            | Some m \<Rightarrow> if m \<noteq> [] then m else []))]
       in bind_io (vmp_request_json c ''POST'' ''/v1/ingest'' None (Some payload)
                     idempotency_key True w) (\<lambda>data w.
            (bind_err (py_getitem data ''event_id'') (\<lambda>event_id.
             bind_err (py_getitem data ''event_hash_hex'') (\<lambda>event_hash_hex.
             bind_err (py_get data ''prev_hash_hex'') (\<lambda>prev_hash_hex.
             bind_err (py_getitem data ''created_at'') (\<lambda>created_at.
               Inr \<lparr> ir_event_id = event_id,
                     ir_event_hash_hex = event_hash_hex,
                     ir_prev_hash_hex = prev_hash_hex,
                     ir_created_at = created_at \<rparr>)))), w)))))"

record delete_response =
  dr_delete_event_id :: json
  dr_delete_event_hash_hex :: json
  dr_receipt_id :: json
  dr_receipt_sig_base64 :: json
  dr_pubkey_id :: json
  dr_pubkey_base64 :: json
  dr_pubkey_hex :: json
  dr_created_at :: json

text \<open>\<^verbatim>\<open>VmpClient.delete\<close>.\<close>

definition delete ::
  "vmp_client \<Rightarrow> string \<Rightarrow> string \<Rightarrow> string \<Rightarrow> (string \<times> json) list option \<Rightarrow>
     world \<Rightarrow> (error + delete_response) \<times> world" where
  "delete c tenant_id scope target_event_id meta w =
     bind_io (enforce_tenant c tenant_id, w) (\<lambda>_ w.
     bind_io (assert_scope scope, w) (\<lambda>_ w.
     bind_io (enforce_scope_prefix c scope, w) (\<lambda>_ w.
     bind_io (assert_uuid_like ''target_event_id'' target_event_id, w) (\<lambda>_ w.
       let payload = JObj [(''tenant_id'', JStr tenant_id),
                           (''scope'', JStr scope),
                           (''target_event_id'', JStr target_event_id),
                           (''meta'', JObj (case meta of None \<Rightarrow> []
                                            | Some m \<Rightarrow> if m \<noteq> [] then m else []))]
       in bind_io (vmp_request_json c ''POST'' ''/v1/delete'' None (Some payload) None True w)
            (\<lambda>data w.
            (bind_err (py_getitem data ''delete_event_id'') (\<lambda>delete_event_id.
             bind_err (py_getitem data ''delete_event_hash_hex'') (\<lambda>delete_event_hash_hex.
             bind_err (py_getitem data ''receipt_id'') (\<lambda>receipt_id.
             bind_err (py_getitem data ''receipt_sig_base64'') (\<lambda>receipt_sig_base64.
             bind_err (py_getitem data ''pubkey_id'') (\<lambda>pubkey_id.
             bind_err (py_getitem data ''pubkey_base64'') (\<lambda>pubkey_base64.
             bind_err (py_getitem data ''pubkey_hex'') (\<lambda>pubkey_hex.
             bind_err (py_getitem data ''created_at'') (\<lambda>created_at.
               Inr \<lparr> dr_delete_event_id = delete_event_id,
                     dr_delete_event_hash_hex = delete_event_hash_hex,
                     dr_receipt_id = receipt_id,
                     dr_receipt_sig_base64 = receipt_sig_base64,
                     dr_pubkey_id = pubkey_id,
                     dr_pubkey_base64 = pubkey_base64,
                     dr_pubkey_hex = pubkey_hex,
                     dr_created_at = created_at \<rparr>)))))))), w))))))"

record proof_path_item =
  sibling_hex :: json
  sibling_is_left :: bool

record proof_response =
  pr_event_id :: json
  pr_tenant_id :: json
  pr_scope :: json
  pr_batch_id :: json
  pr_leaf_index :: json
  pr_leaf_hex :: json
  pr_root_hex :: json
  pr_path :: "proof_path_item list"
  pr_sig_base64 :: json
  pr_pubkey_id :: json
  pr_pubkey_base64 :: json
  pr_pubkey_hex :: json
  pr_batch_created_at :: json

text \<open>\<^verbatim>\<open>VmpClient.get_proof\<close>.\<close>

definition get_proof ::
  "vmp_client \<Rightarrow> string \<Rightarrow> world \<Rightarrow> (error + proof_response) \<times> world" where
  "get_proof c event_id w =
     bind_io (assert_uuid_like ''event_id'' event_id, w) (\<lambda>_ w.
     bind_io (vmp_request_json c ''GET'' (''/v1/proof/'' @ event_id) None None None True w)
       (\<lambda>data w.
       (bind_err (py_get data ''path'') (\<lambda>path0.
        bind_err (py_iter (py_or path0 (JArr []))) (\<lambda>raw_path.
        bind_err (map_err (\<lambda>item.
                    bind_err (py_getitem item ''sibling_hex'') (\<lambda>sh.
                    bind_err (py_getitem item ''sibling_is_left'') (\<lambda>sl.
                      Inr \<lparr> sibling_hex = sh, sibling_is_left = py_bool sl \<rparr>)))
                  raw_path) (\<lambda>path_items.
        bind_err (py_getitem data ''event_id'') (\<lambda>event_id.
        bind_err (py_getitem data ''tenant_id'') (\<lambda>tenant_id.
        bind_err (py_getitem data ''scope'') (\<lambda>scope.
        bind_err (py_get data ''batch_id'') (\<lambda>batch_id.
        bind_err (py_get data ''leaf_index'') (\<lambda>leaf_index.
        bind_err (py_get data ''leaf_hex'') (\<lambda>leaf_hex.
        bind_err (py_get data ''root_hex'') (\<lambda>root_hex.
        bind_err (py_get data ''sig_base64'') (\<lambda>sig_base64.
        bind_err (py_get data ''pubkey_id'') (\<lambda>pubkey_id.
        bind_err (py_get data ''pubkey_base64'') (\<lambda>pubkey_base64.
        bind_err (py_get data ''pubkey_hex'') (\<lambda>pubkey_hex.
        bind_err (py_get data ''batch_created_at'') (\<lambda>batch_created_at.
          Inr \<lparr> pr_event_id = event_id,
                pr_tenant_id = tenant_id,
                pr_scope = scope,
                pr_batch_id = batch_id,
                pr_leaf_index = leaf_index,
                pr_leaf_hex = leaf_hex,
                pr_root_hex = root_hex,
                pr_path = path_items,
                pr_sig_base64 = sig_base64,
                pr_pubkey_id = pubkey_id,
                pr_pubkey_base64 = pubkey_base64,
                pr_pubkey_hex = pubkey_hex,
                pr_batch_created_at = batch_created_at \<rparr>))))))))))))))), w)))"

record wait_for_batch_options =
  wfb_timeout_ms :: int
  wfb_poll_interval_ms :: int

definition WaitForBatchOptions :: wait_for_batch_options where
  "WaitForBatchOptions = \<lparr> wfb_timeout_ms = 30000, wfb_poll_interval_ms = 800 \<rparr>"

text \<open>
  The \<^verbatim>\<open>while True\<close> loop of \<^verbatim>\<open>VmpClient.wait_for_batch\<close>: poll, return a proof that has
  a batch, otherwise raise once the clock is past the deadline, otherwise compute the
  sleep length \<^verbatim>\<open>poll_interval_ms / 1000.0\<close>, sleep and poll again. The loop need not end,
  so its result is an option: \<open>None\<close> is a run that never returns.
\<close>

partial_function (option) wait_for_batch_loop ::
  "vmp_client \<Rightarrow> string \<Rightarrow> wait_for_batch_options \<Rightarrow> pyfloat \<Rightarrow> world \<Rightarrow>
     ((error + proof_response) \<times> world) option" where
  "wait_for_batch_loop c event_id options deadline w =
     (case get_proof c event_id w of
        (Inl e, w1) \<Rightarrow> Some (Inl e, w1)
      | (Inr p, w1) \<Rightarrow>
          if pr_batch_id p \<noteq> JNull then Some (Inr p, w1)
          else (case time_time w1 of
                  (now, w2) \<Rightarrow>
                    if float_gt now deadline
                      then Some (Inl (VemorakSdkError
                                  (''wait_for_batch timed out for event_id='' @ event_id)), w2)
                    else (case int_div_1000 (wfb_poll_interval_ms options) of
                            Inl e \<Rightarrow> Some (Inl e, w2)
                          | Inr secs \<Rightarrow>
                              (case time_sleep secs w2 of
                                 (Inl e, w3) \<Rightarrow> Some (Inl e, w3)
                               | (Inr _, w3) \<Rightarrow>
                                   wait_for_batch_loop c event_id options deadline w3))))"

text \<open>
  \<^verbatim>\<open>VmpClient.wait_for_batch\<close>: an options object is always true, so \<^verbatim>\<open>opts or
  WaitForBatchOptions()\<close> takes the defaults exactly when \<open>opts\<close> is \<^verbatim>\<open>None\<close>. The deadline is
  \<^verbatim>\<open>time.time() + (options.timeout_ms / 1000.0)\<close>: the clock is read first, then the
  division can raise \<^verbatim>\<open>OverflowError\<close>, before any poll.
\<close>

definition wait_for_batch ::
  "vmp_client \<Rightarrow> string \<Rightarrow> wait_for_batch_options option \<Rightarrow> world \<Rightarrow>
     ((error + proof_response) \<times> world) option" where
  "wait_for_batch c event_id opts w =
     (let options = (case opts of None \<Rightarrow> WaitForBatchOptions | Some opt \<Rightarrow> opt)
      in case time_time w of
           (now, w0) \<Rightarrow>
             (case int_div_1000 (wfb_timeout_ms options) of
                Inl e \<Rightarrow> Some (Inl e, w0)
              | Inr secs \<Rightarrow>
                  wait_for_batch_loop c event_id options (float_add now secs) w0))"

section \<open>Bundles\<close>

record event_bundle_event =
  ebe_id :: json
  ebe_tenant_id :: json
  ebe_scope :: json
  ebe_op :: json
  ebe_created_at :: json
  ebe_fields :: json
  ebe_meta :: json
  ebe_event_hash_hex :: json
  ebe_prev_hash_hex :: json
  ebe_fields_canon :: json
  ebe_meta_canon :: json
  ebe_c_fields_hex :: json
  ebe_batch_id :: json
  ebe_leaf_index :: json

record event_bundle_recompute =
  recomputed_event_hash_hex :: json
  matches_stored :: bool

record event_bundle_response =
  eb_kind :: json
  eb_event :: event_bundle_event
  eb_proof :: proof_response
  eb_recompute :: event_bundle_recompute

text \<open>
  \<^verbatim>\<open>VmpClient.get_event_bundle\<close>. The source builds the proof object first, then the
  event object, then the recompute object, and reads \<^verbatim>\<open>kind\<close> last; the order decides
  which error is raised on a body that lacks several keys.
\<close>

definition get_event_bundle ::
  "vmp_client \<Rightarrow> string \<Rightarrow> world \<Rightarrow> (error + event_bundle_response) \<times> world" where
  "get_event_bundle c event_id w =
     bind_io (assert_uuid_like ''event_id'' event_id, w) (\<lambda>_ w.
     bind_io (vmp_request_json c ''GET'' (''/v1/events/'' @ event_id @ ''/bundle'')
                None None None True w) (\<lambda>data w.
       (
        bind_err (py_getitem data ''event'') (\<lambda>ev.
        bind_err (py_getitem data ''proof'') (\<lambda>prf.
        bind_err (py_getitem data ''recompute'') (\<lambda>recompute.
        bind_err (py_get prf ''path'') (\<lambda>path0.
        bind_err (py_iter (py_or path0 (JArr []))) (\<lambda>proof_path.
        bind_err (map_err (\<lambda>p.
                    bind_err (py_getitem p ''sibling_hex'') (\<lambda>sh.
                    bind_err (py_getitem p ''sibling_is_left'') (\<lambda>sl.
                      Inr \<lparr> sibling_hex = sh, sibling_is_left = py_bool sl \<rparr>)))
                  proof_path) (\<lambda>proof_path_items.
        bind_err (py_getitem prf ''event_id'') (\<lambda>p_event_id.
        bind_err (py_getitem prf ''tenant_id'') (\<lambda>p_tenant_id.
        bind_err (py_getitem prf ''scope'') (\<lambda>p_scope.
        bind_err (py_get prf ''batch_id'') (\<lambda>p_batch_id.
        bind_err (py_get prf ''leaf_index'') (\<lambda>p_leaf_index.
        bind_err (py_get prf ''leaf_hex'') (\<lambda>p_leaf_hex.
        bind_err (py_get prf ''root_hex'') (\<lambda>p_root_hex.
        bind_err (py_get prf ''sig_base64'') (\<lambda>p_sig_base64.
        bind_err (py_get prf ''pubkey_id'') (\<lambda>p_pubkey_id.
        bind_err (py_get prf ''pubkey_base64'') (\<lambda>p_pubkey_base64.
        bind_err (py_get prf ''pubkey_hex'') (\<lambda>p_pubkey_hex.
        bind_err (py_get prf ''batch_created_at'') (\<lambda>p_batch_created_at.
        bind_err (py_getitem ev ''id'') (\<lambda>e_id.
        bind_err (py_getitem ev ''tenant_id'') (\<lambda>e_tenant_id.
        bind_err (py_getitem ev ''scope'') (\<lambda>e_scope.
        bind_err (py_getitem ev ''op'') (\<lambda>e_op.
        bind_err (py_getitem ev ''created_at'') (\<lambda>e_created_at.
        bind_err (py_get ev ''fields'') (\<lambda>e_fields.
        bind_err (py_get ev ''meta'') (\<lambda>e_meta.
        bind_err (py_getitem ev ''event_hash_hex'') (\<lambda>e_event_hash_hex.
        bind_err (py_get ev ''prev_hash_hex'') (\<lambda>e_prev_hash_hex.
        bind_err (py_getitem ev ''fields_canon'') (\<lambda>e_fields_canon.
        bind_err (py_getitem ev ''meta_canon'') (\<lambda>e_meta_canon.
        bind_err (py_getitem ev ''c_fields_hex'') (\<lambda>e_c_fields_hex.
        bind_err (py_get ev ''batch_id'') (\<lambda>e_batch_id.
        bind_err (py_get ev ''leaf_index'') (\<lambda>e_leaf_index.
        bind_err (py_getitem recompute ''recomputed_event_hash_hex'') (\<lambda>r_hash.
        bind_err (py_getitem recompute ''matches_stored'') (\<lambda>r_matches.
        bind_err (py_getitem data ''kind'') (\<lambda>kind.
          Inr \<lparr> eb_kind = kind,
                eb_event =
                  \<lparr> ebe_id = e_id,
                    ebe_tenant_id = e_tenant_id,
                    ebe_scope = e_scope,
                    ebe_op = e_op,
                    ebe_created_at = e_created_at,
                    ebe_fields = py_or e_fields (JObj []),
                    ebe_meta = py_or e_meta (JObj []),
                    ebe_event_hash_hex = e_event_hash_hex,
                    ebe_prev_hash_hex = e_prev_hash_hex,
                    ebe_fields_canon = e_fields_canon,
                    ebe_meta_canon = e_meta_canon,
                    ebe_c_fields_hex = e_c_fields_hex,
                    ebe_batch_id = e_batch_id,
                    ebe_leaf_index = e_leaf_index \<rparr>,
                eb_proof =
                  \<lparr> pr_event_id = p_event_id,
                    pr_tenant_id = p_tenant_id,
                    pr_scope = p_scope,
                    pr_batch_id = p_batch_id,
                    pr_leaf_index = p_leaf_index,
                    pr_leaf_hex = p_leaf_hex,
                    pr_root_hex = p_root_hex,
                    pr_path = proof_path_items,
                    pr_sig_base64 = p_sig_base64,
                    pr_pubkey_id = p_pubkey_id,
                    pr_pubkey_base64 = p_pubkey_base64,
                    pr_pubkey_hex = p_pubkey_hex,
                    pr_batch_created_at = p_batch_created_at \<rparr>,
                eb_recompute =
                  \<lparr> recomputed_event_hash_hex = r_hash,
                    matches_stored = py_bool r_matches \<rparr> \<rparr>))))))))))))))))))))))))))))))))))), w)))"

text \<open>\<^verbatim>\<open>VmpClient._parse_event_bundle_from_dict\<close>; the method does not read the client.\<close>

definition parse_event_bundle_from_dict :: "json \<Rightarrow> error + event_bundle_response" where
  "parse_event_bundle_from_dict data =
     (
      bind_err (py_getitem data ''event'') (\<lambda>ev.
      bind_err (py_getitem data ''proof'') (\<lambda>prf.
      bind_err (py_getitem data ''recompute'') (\<lambda>recompute.
      bind_err (py_get prf ''path'') (\<lambda>path0.
      bind_err (py_iter (py_or path0 (JArr []))) (\<lambda>proof_path.
      bind_err (map_err (\<lambda>p.
                  bind_err (py_getitem p ''sibling_hex'') (\<lambda>sh.
                  bind_err (py_getitem p ''sibling_is_left'') (\<lambda>sl.
                    Inr \<lparr> sibling_hex = sh, sibling_is_left = py_bool sl \<rparr>)))
                proof_path) (\<lambda>proof_path_items.
      bind_err (py_getitem prf ''event_id'') (\<lambda>p_event_id.
      bind_err (py_getitem prf ''tenant_id'') (\<lambda>p_tenant_id.
      bind_err (py_getitem prf ''scope'') (\<lambda>p_scope.
      bind_err (py_get prf ''batch_id'') (\<lambda>p_batch_id.
      bind_err (py_get prf ''leaf_index'') (\<lambda>p_leaf_index.
      bind_err (py_get prf ''leaf_hex'') (\<lambda>p_leaf_hex.
      bind_err (py_get prf ''root_hex'') (\<lambda>p_root_hex.
      bind_err (py_get prf ''sig_base64'') (\<lambda>p_sig_base64.
      bind_err (py_get prf ''pubkey_id'') (\<lambda>p_pubkey_id.
      bind_err (py_get prf ''pubkey_base64'') (\<lambda>p_pubkey_base64.
      bind_err (py_get prf ''pubkey_hex'') (\<lambda>p_pubkey_hex.
      bind_err (py_get prf ''batch_created_at'') (\<lambda>p_batch_created_at.
      bind_err (py_getitem ev ''id'') (\<lambda>e_id.
      bind_err (py_getitem ev ''tenant_id'') (\<lambda>e_tenant_id.
      bind_err (py_getitem ev ''scope'') (\<lambda>e_scope.
      bind_err (py_getitem ev ''op'') (\<lambda>e_op.
      bind_err (py_getitem ev ''created_at'') (\<lambda>e_created_at.
      bind_err (py_get ev ''fields'') (\<lambda>e_fields.
      bind_err (py_get ev ''meta'') (\<lambda>e_meta.
      bind_err (py_getitem ev ''event_hash_hex'') (\<lambda>e_event_hash_hex.
      bind_err (py_get ev ''prev_hash_hex'') (\<lambda>e_prev_hash_hex.
      bind_err (py_getitem ev ''fields_canon'') (\<lambda>e_fields_canon.
      bind_err (py_getitem ev ''meta_canon'') (\<lambda>e_meta_canon.
      bind_err (py_getitem ev ''c_fields_hex'') (\<lambda>e_c_fields_hex.
      bind_err (py_get ev ''batch_id'') (\<lambda>e_batch_id.
      bind_err (py_get ev ''leaf_index'') (\<lambda>e_leaf_index.
      bind_err (py_getitem recompute ''recomputed_event_hash_hex'') (\<lambda>r_hash.
      bind_err (py_getitem recompute ''matches_stored'') (\<lambda>r_matches.
      bind_err (py_getitem data ''kind'') (\<lambda>kind.
        Inr \<lparr> eb_kind = kind,
              eb_event =
                \<lparr> ebe_id = e_id,
                  ebe_tenant_id = e_tenant_id,
                  ebe_scope = e_scope,
                  ebe_op = e_op,
                  ebe_created_at = e_created_at,
                  ebe_fields = py_or e_fields (JObj []),
                  ebe_meta = py_or e_meta (JObj []),
                  ebe_event_hash_hex = e_event_hash_hex,
                  ebe_prev_hash_hex = e_prev_hash_hex,
                  ebe_fields_canon = e_fields_canon,
                  ebe_meta_canon = e_meta_canon,
                  ebe_c_fields_hex = e_c_fields_hex,
                  ebe_batch_id = e_batch_id,
                  ebe_leaf_index = e_leaf_index \<rparr>,
              eb_proof =
                \<lparr> pr_event_id = p_event_id,
                  pr_tenant_id = p_tenant_id,
                  pr_scope = p_scope,
                  pr_batch_id = p_batch_id,
                  pr_leaf_index = p_leaf_index,
                  pr_leaf_hex = p_leaf_hex,
                  pr_root_hex = p_root_hex,
                  pr_path = proof_path_items,
                  pr_sig_base64 = p_sig_base64,
                  pr_pubkey_id = p_pubkey_id,
                  pr_pubkey_base64 = p_pubkey_base64,
                  pr_pubkey_hex = p_pubkey_hex,
                  pr_batch_created_at = p_batch_created_at \<rparr>,
              eb_recompute =
                \<lparr> recomputed_event_hash_hex = r_hash,
                  matches_stored = py_bool r_matches \<rparr> \<rparr>))))))))))))))))))))))))))))))))))))"

record deletion_receipt_response =
  rc_receipt_id :: json
  rc_tenant_id :: json
  rc_scope :: json
  rc_delete_event_id :: json
  rc_delete_event_hash_hex :: json
  rc_sig_base64 :: json
  rc_pubkey_id :: json
  rc_pubkey_base64 :: json
  rc_pubkey_hex :: json
  rc_created_at :: json

record deletion_receipt_bundle_verification =
  ver_receipt_id :: json
  ver_valid :: bool

record deletion_receipt_bundle_response =
  db_kind :: json
  db_receipt :: deletion_receipt_response
  db_verification :: deletion_receipt_bundle_verification
  db_delete_event_bundle :: event_bundle_response

text \<open>\<^verbatim>\<open>VmpClient.get_deletion_receipt_bundle\<close>: the nested bundle goes through
  \<open>parse_event_bundle_from_dict\<close>.\<close>

definition get_deletion_receipt_bundle ::
  "vmp_client \<Rightarrow> string \<Rightarrow> world \<Rightarrow> (error + deletion_receipt_bundle_response) \<times> world" where
  "get_deletion_receipt_bundle c receipt_id w =
     bind_io (assert_uuid_like ''receipt_id'' receipt_id, w) (\<lambda>_ w.
     bind_io (vmp_request_json c ''GET'' (''/v1/deletion-receipts/'' @ receipt_id @ ''/bundle'')
                None None None True w) (\<lambda>data w.
       (bind_err (py_getitem data ''receipt'') (\<lambda>receipt.
        bind_err (py_getitem data ''verification'') (\<lambda>ver.
        bind_err (py_getitem data ''delete_event_bundle'') (\<lambda>delete_event_bundle.
        bind_err (py_getitem receipt ''receipt_id'') (\<lambda>r_receipt_id.
        bind_err (py_getitem receipt ''tenant_id'') (\<lambda>r_tenant_id.
        bind_err (py_getitem receipt ''scope'') (\<lambda>r_scope.
        bind_err (py_getitem receipt ''delete_event_id'') (\<lambda>r_delete_event_id.
        bind_err (py_getitem receipt ''delete_event_hash_hex'') (\<lambda>r_delete_event_hash_hex.
        bind_err (py_getitem receipt ''sig_base64'') (\<lambda>r_sig_base64.
        bind_err (py_getitem receipt ''pubkey_id'') (\<lambda>r_pubkey_id.
        bind_err (py_getitem receipt ''pubkey_base64'') (\<lambda>r_pubkey_base64.
        bind_err (py_getitem receipt ''pubkey_hex'') (\<lambda>r_pubkey_hex.
        bind_err (py_getitem receipt ''created_at'') (\<lambda>r_created_at.
        bind_err (py_getitem ver ''receipt_id'') (\<lambda>v_receipt_id.
        bind_err (py_getitem ver ''valid'') (\<lambda>v_valid.
        bind_err (parse_event_bundle_from_dict delete_event_bundle) (\<lambda>bundle_obj.
        bind_err (py_getitem data ''kind'') (\<lambda>kind.
          Inr \<lparr> db_kind = kind,
                db_receipt =
                  \<lparr> rc_receipt_id = r_receipt_id,
                    rc_tenant_id = r_tenant_id,
                    rc_scope = r_scope,
                    rc_delete_event_id = r_delete_event_id,
                    rc_delete_event_hash_hex = r_delete_event_hash_hex,
                    rc_sig_base64 = r_sig_base64,
                    rc_pubkey_id = r_pubkey_id,
                    rc_pubkey_base64 = r_pubkey_base64,
                    rc_pubkey_hex = r_pubkey_hex,
                    rc_created_at = r_created_at \<rparr>,
                db_verification =
                  \<lparr> ver_receipt_id = v_receipt_id, ver_valid = py_bool v_valid \<rparr>,
                db_delete_event_bundle = bundle_obj \<rparr>))))))))))))))))), w)))"

section \<open>Offline verify endpoints\<close>

record verify_bundle_response =
  vb_ok :: bool
  vb_checks :: json

text \<open>\<^verbatim>\<open>VmpClient.verify_event_bundle_offline\<close>: called with \<^verbatim>\<open>auth=False\<close>.\<close>

definition verify_event_bundle_offline ::
  "vmp_client \<Rightarrow> (string \<times> json) list \<Rightarrow> world \<Rightarrow> (error + verify_bundle_response) \<times> world" where
  "verify_event_bundle_offline c bundle w =
     bind_io (vmp_request_json c ''POST'' ''/v1/verify/bundle'' None (Some (JObj bundle))
                None False w) (\<lambda>data w.
       (bind_err (py_get data ''ok'') (\<lambda>ok.
        bind_err (py_get data ''checks'') (\<lambda>checks.
          Inr \<lparr> vb_ok = py_bool ok, vb_checks = py_or checks (JObj []) \<rparr>)), w))"

text \<open>\<^verbatim>\<open>VmpClient.verify_deletion_bundle_offline\<close>: called with \<^verbatim>\<open>auth=False\<close>.\<close>

definition verify_deletion_bundle_offline ::
  "vmp_client \<Rightarrow> (string \<times> json) list \<Rightarrow> world \<Rightarrow> (error + verify_bundle_response) \<times> world" where
  "verify_deletion_bundle_offline c bundle w =
     bind_io (vmp_request_json c ''POST'' ''/v1/verify/deletion-bundle'' None
                (Some (JObj bundle)) None False w) (\<lambda>data w.
       (bind_err (py_get data ''ok'') (\<lambda>ok.
        bind_err (py_get data ''checks'') (\<lambda>checks.
          Inr \<lparr> vb_ok = py_bool ok, vb_checks = py_or checks (JObj []) \<rparr>)), w))"

section \<open>Admin endpoints\<close>

text \<open>
  \<^verbatim>\<open>int(x)\<close> on a decoded value: an integer is kept, a boolean counts as 0 or 1, a float
  is truncated towards zero, a string is read as a decimal literal (white space around
  it, a sign, digits with single underscores between them), anything else raises
  \<^verbatim>\<open>TypeError\<close>. The white space \<^verbatim>\<open>int\<close> skips is narrower than that of \<^verbatim>\<open>str.strip\<close>: the
  separators \<^verbatim>\<open>0x1C\<close> to \<^verbatim>\<open>0x1F\<close> are not skipped. The interpreter's limit on the number of
  digits is left out.
\<close>

definition int_isspace :: "char \<Rightarrow> bool" where
  "int_isspace ch = ((of_char ch :: nat) \<in> {9, 10, 11, 12, 13, 32, 133, 160})"

definition int_strip :: "string \<Rightarrow> string" where
  "int_strip s = rev (dropWhile int_isspace (rev (dropWhile int_isspace s)))"

definition is_digit :: "char \<Rightarrow> bool" where
  "is_digit ch = (48 \<le> (of_char ch :: nat) \<and> (of_char ch :: nat) \<le> 57)"

definition digit_val :: "char \<Rightarrow> int" where
  "digit_val ch = int (of_char ch) - 48"

fun int_digits :: "int \<Rightarrow> string \<Rightarrow> int option" where
  "int_digits acc [] = Some acc"
| "int_digits acc [ch] = (if is_digit ch then Some (acc * 10 + digit_val ch) else None)"
| "int_digits acc (ch # d # rest) =
     (if is_digit ch then int_digits (acc * 10 + digit_val ch) (d # rest)
      else if ch = CHR ''_'' \<and> is_digit d then int_digits (acc * 10 + digit_val d) rest
      else None)"

definition int_unsigned :: "string \<Rightarrow> int option" where
  "int_unsigned s =
     (case s of
        [] \<Rightarrow> None
      | ch # rest \<Rightarrow> if is_digit ch then int_digits (digit_val ch) rest else None)"

definition int_literal :: "string \<Rightarrow> int option" where
  "int_literal s =
     (case s of
        [] \<Rightarrow> None
      | ch # rest \<Rightarrow>
          if ch = CHR ''-'' then map_option uminus (int_unsigned rest)
          else if ch = CHR ''+'' then int_unsigned rest
          else int_unsigned s)"

fun py_int :: "json \<Rightarrow> error + int" where
  "py_int (JInt n) = Inr n"
| "py_int (JBool b) = Inr (if b then 1 else 0)"
| "py_int (JFloat r) = Inr (if r \<ge> 0 then \<lfloor>r\<rfloor> else \<lceil>r\<rceil>)"
| "py_int (JStr s) =
     (case int_literal (int_strip s) of None \<Rightarrow> Inl ValueError | Some n \<Rightarrow> Inr n)"
| "py_int _ = Inl TypeError"

record admin_event_item =
  ae_id :: json
  ae_tenant_id :: json
  ae_scope :: json
  ae_op :: json
  ae_created_at :: json
  ae_batch_id :: json
  ae_leaf_index :: json

text \<open>\<^verbatim>\<open>VmpClient.admin_list_events\<close>: the limit goes through \<open>assert_limit\<close>. The result
  is the list held by \<^verbatim>\<open>AdminListEventsResponse.items\<close>.\<close>

definition admin_list_events ::
  "vmp_client \<Rightarrow> string \<Rightarrow> string option \<Rightarrow> int option \<Rightarrow> world \<Rightarrow>
     (error + admin_event_item list) \<times> world" where
  "admin_list_events c tenant_id scope limit w =
     bind_io (enforce_tenant c tenant_id, w) (\<lambda>_ w.
     bind_io (case scope of
                None \<Rightarrow> Inr ()
              | Some sc \<Rightarrow> bind_err (assert_scope sc) (\<lambda>_. enforce_scope_prefix c sc), w) (\<lambda>_ w.
     bind_io (assert_limit limit, w) (\<lambda>_ w.
       let query = [(''tenant_id'', JStr tenant_id)]
                   @ (case scope of None \<Rightarrow> [] | Some sc \<Rightarrow> [(''scope'', JStr sc)])
                   @ (case limit of None \<Rightarrow> [] | Some n \<Rightarrow> [(''limit'', JInt n)])
       in bind_io (vmp_request_json c ''GET'' ''/v1/admin/events'' (Some query) None None True w)
            (\<lambda>data w.
            (bind_err (py_get data ''items'') (\<lambda>items0.
             bind_err (py_iter (py_or items0 (JArr []))) (\<lambda>raw_items.
               map_err (\<lambda>item.
                 bind_err (py_getitem item ''id'') (\<lambda>i_id.
                 bind_err (py_getitem item ''tenant_id'') (\<lambda>i_tenant_id.
                 bind_err (py_getitem item ''scope'') (\<lambda>i_scope.
                 bind_err (py_getitem item ''op'') (\<lambda>i_op.
                 bind_err (py_getitem item ''created_at'') (\<lambda>i_created_at.
                 bind_err (py_get item ''batch_id'') (\<lambda>i_batch_id.
                 bind_err (py_get item ''leaf_index'') (\<lambda>i_leaf_index.
                   Inr \<lparr> ae_id = i_id,
                         ae_tenant_id = i_tenant_id,
                         ae_scope = i_scope,
                         ae_op = i_op,
                         ae_created_at = i_created_at,
                         ae_batch_id = i_batch_id,
                         ae_leaf_index = i_leaf_index \<rparr>))))))))
               raw_items)), w)))))"

record admin_batch_item =
  ab_id :: json
  ab_tenant_id :: json
  ab_root_hex :: json
  ab_sig_base64 :: json
  ab_pubkey_id :: json
  ab_pubkey_base64 :: json
  ab_pubkey_hex :: json
  ab_count :: int
  ab_created_at :: json

text \<open>\<^verbatim>\<open>VmpClient.admin_list_batches\<close>: the limit is tested inline, against the lower
  bound only.\<close>

definition admin_list_batches ::
  "vmp_client \<Rightarrow> string \<Rightarrow> int option \<Rightarrow> world \<Rightarrow> (error + admin_batch_item list) \<times> world" where
  "admin_list_batches c tenant_id limit w =
     bind_io (enforce_tenant c tenant_id, w) (\<lambda>_ w.
     bind_io (case limit of
                None \<Rightarrow> Inr [(''tenant_id'', JStr tenant_id)]
              | Some n \<Rightarrow>
                  if n < 1 then Inl (VemorakSdkError ''limit must be a positive integer'')
                  else Inr [(''tenant_id'', JStr tenant_id), (''limit'', JInt n)], w) (\<lambda>query w.
     bind_io (vmp_request_json c ''GET'' ''/v1/admin/batches'' (Some query) None None True w)
       (\<lambda>data w.
       (bind_err (py_get data ''items'') (\<lambda>items0.
        bind_err (py_iter (py_or items0 (JArr []))) (\<lambda>raw_items.
          map_err (\<lambda>item.
            bind_err (py_getitem item ''id'') (\<lambda>i_id.
            bind_err (py_getitem item ''tenant_id'') (\<lambda>i_tenant_id.
            bind_err (py_getitem item ''root_hex'') (\<lambda>i_root_hex.
            bind_err (py_get item ''sig_base64'') (\<lambda>i_sig_base64.
            bind_err (py_get item ''pubkey_id'') (\<lambda>i_pubkey_id.
            bind_err (py_get item ''pubkey_base64'') (\<lambda>i_pubkey_base64.
            bind_err (py_get item ''pubkey_hex'') (\<lambda>i_pubkey_hex.
            bind_err (py_getitem item ''count'') (\<lambda>i_count0.
            bind_err (py_int i_count0) (\<lambda>i_count.
            bind_err (py_getitem item ''created_at'') (\<lambda>i_created_at.
              Inr \<lparr> ab_id = i_id,
                    ab_tenant_id = i_tenant_id,
                    ab_root_hex = i_root_hex,
                    ab_sig_base64 = i_sig_base64,
                    ab_pubkey_id = i_pubkey_id,
                    ab_pubkey_base64 = i_pubkey_base64,
                    ab_pubkey_hex = i_pubkey_hex,
                    ab_count = i_count,
                    ab_created_at = i_created_at \<rparr>)))))))))))
          raw_items)), w))))"

record admin_deletion_receipt_item =
  ad_receipt_id :: json
  ad_tenant_id :: json
  ad_scope :: json
  ad_delete_event_id :: json
  ad_delete_event_hash_hex :: json
  ad_sig_base64 :: json
  ad_pubkey_id :: json
  ad_pubkey_base64 :: json
  ad_pubkey_hex :: json
  ad_created_at :: json

text \<open>\<^verbatim>\<open>VmpClient.admin_list_deletion_receipts\<close>: the limit is tested inline, against
  the lower bound only.\<close>

definition admin_list_deletion_receipts ::
  "vmp_client \<Rightarrow> string \<Rightarrow> string option \<Rightarrow> int option \<Rightarrow> world \<Rightarrow>
     (error + admin_deletion_receipt_item list) \<times> world" where
  "admin_list_deletion_receipts c tenant_id scope limit w =
     bind_io (enforce_tenant c tenant_id, w) (\<lambda>_ w.
     bind_io (case scope of
                None \<Rightarrow> Inr ()
              | Some sc \<Rightarrow> bind_err (assert_scope sc) (\<lambda>_. enforce_scope_prefix c sc), w) (\<lambda>_ w.
     bind_io (case limit of
                None \<Rightarrow> Inr []
              | Some n \<Rightarrow>
                  if n < 1 then Inl (VemorakSdkError ''limit must be a positive integer'')
                  else Inr [(''limit'', JInt n)], w) (\<lambda>limit_entry w.
       let query = [(''tenant_id'', JStr tenant_id)]
                   @ (case scope of None \<Rightarrow> [] | Some sc \<Rightarrow> [(''scope'', JStr sc)])
                   @ limit_entry
       in bind_io (vmp_request_json c ''GET'' ''/v1/admin/deletion-receipts'' (Some query)
                     None None True w) (\<lambda>data w.
            (bind_err (py_get data ''items'') (\<lambda>items0.
             bind_err (py_iter (py_or items0 (JArr []))) (\<lambda>raw_items.
               map_err (\<lambda>item.
                 bind_err (py_getitem item ''receipt_id'') (\<lambda>i_receipt_id.
                 bind_err (py_getitem item ''tenant_id'') (\<lambda>i_tenant_id.
                 bind_err (py_getitem item ''scope'') (\<lambda>i_scope.
                 bind_err (py_getitem item ''delete_event_id'') (\<lambda>i_delete_event_id.
                 bind_err (py_getitem item ''delete_event_hash_hex'') (\<lambda>i_delete_event_hash_hex.
                 bind_err (py_getitem item ''sig_base64'') (\<lambda>i_sig_base64.
                 bind_err (py_getitem item ''pubkey_id'') (\<lambda>i_pubkey_id.
                 bind_err (py_getitem item ''pubkey_base64'') (\<lambda>i_pubkey_base64.
                 bind_err (py_getitem item ''pubkey_hex'') (\<lambda>i_pubkey_hex.
                 bind_err (py_getitem item ''created_at'') (\<lambda>i_created_at.
                   Inr \<lparr> ad_receipt_id = i_receipt_id,
                         ad_tenant_id = i_tenant_id,
                         ad_scope = i_scope,
                         ad_delete_event_id = i_delete_event_id,
                         ad_delete_event_hash_hex = i_delete_event_hash_hex,
                         ad_sig_base64 = i_sig_base64,
                         ad_pubkey_id = i_pubkey_id,
                         ad_pubkey_base64 = i_pubkey_base64,
                         ad_pubkey_hex = i_pubkey_hex,
                         ad_created_at = i_created_at \<rparr>)))))))))))
               raw_items)), w)))))"

section \<open>client.py: ProvisioningClient\<close>

record provisioning_client =
  prov_base_url :: string
  prov_token :: string
  prov_timeout :: pyfloat
  prov_client :: httpx_client

text \<open>\<^verbatim>\<open>ProvisioningClient.__init__\<close>; \<^verbatim>\<open>timeout_ms / 1000.0\<close> is computed after the two
  checks and can raise \<^verbatim>\<open>OverflowError\<close>.\<close>

definition ProvisioningClient_init :: "string \<Rightarrow> string \<Rightarrow> int \<Rightarrow> error + provisioning_client" where
  "ProvisioningClient_init base_url provision_token timeout_ms =
     bind_err (assert_non_empty ''base_url'' base_url) (\<lambda>_.
     bind_err (assert_non_empty ''provision_token'' provision_token) (\<lambda>_.
     bind_err (int_div_1000 timeout_ms) (\<lambda>timeout.
       Inr \<lparr> prov_base_url = rstrip_slash base_url,
             prov_token = provision_token,
             prov_timeout = timeout,
             prov_client =
               \<lparr> hc_base_url = rstrip_slash base_url,
                 hc_timeout = timeout,
                 hc_headers = [(''Accept'', ''application/json''),
                               (''Authorization'', ''Bearer '' @ provision_token)] \<rparr> \<rparr>)))"

text \<open>\<^verbatim>\<open>ProvisioningClient._request_json\<close>: no headers of its own, and the method is
  compared with \<^verbatim>\<open>"GET"\<close> as written.\<close>

definition prov_request_json ::
  "provisioning_client \<Rightarrow> string \<Rightarrow> string \<Rightarrow> (string \<times> json) list option \<Rightarrow> json option \<Rightarrow>
     world \<Rightarrow> (error + json) \<times> world" where
  "prov_request_json c method path query body w =
     (case httpx_request (prov_client c) method path query
             (if method \<noteq> ''GET'' then body else None) None w of
        (TimeoutException, w') \<Rightarrow> (Inl (VmpTimeoutError ''VMP request timed out''), w')
      | (OtherTransportFailure, w') \<Rightarrow> (Inl TransportError, w')
      | (Reply resp, w') \<Rightarrow>
          (let text = resp_text resp in
           if status_code resp < 200 \<or> status_code resp \<ge> 300 then
             (let fallback = (if py_strip text \<noteq> [] then py_strip text
                              else ''unknown error'');
                  err_str = (case resp_json resp of
                               Some (JObj kvs) \<Rightarrow>
                                 (case map_of kvs ''error'' of
                                    Some (JStr s) \<Rightarrow> s
                                  | _ \<Rightarrow> fallback)
                             | _ \<Rightarrow> fallback);
                  details = (case resp_json resp of
                               Some (JObj kvs) \<Rightarrow>
                                 (case map_of kvs ''details'' of
                                    Some d \<Rightarrow> d
                                  | None \<Rightarrow> JNull)
                             | _ \<Rightarrow> JNull)
              in (Inl (VmpHttpError (status_code resp) err_str text details), w'))
           else if py_strip text = [] then (Inr (JObj []), w')
           else (case resp_json resp of
                   None \<Rightarrow> (Inl JSONDecodeError, w')
                 | Some v \<Rightarrow> (Inr v, w'))))"

record provision_list_key_item =
  pk_id :: json
  pk_tenant_id :: json
  pk_name :: json
  pk_key_prefix :: json
  pk_scopes :: "json list"
  pk_created_at :: json
  pk_expires_at :: json
  pk_revoked_at :: json

record provision_list_keys_response =
  pl_tenant_id :: json
  pl_items :: "provision_list_key_item list"

text \<open>\<^verbatim>\<open>ProvisioningClient.list_api_keys\<close>: the limit is tested inline, against the lower
  bound only; \<^verbatim>\<open>list(x)\<close> collects what iterating \<^verbatim>\<open>x\<close> yields.\<close>

definition list_api_keys ::
  "provisioning_client \<Rightarrow> string \<Rightarrow> int option \<Rightarrow> world \<Rightarrow>
     (error + provision_list_keys_response) \<times> world" where
  "list_api_keys c tenant_id limit w =
     bind_io (assert_tenant_id tenant_id, w) (\<lambda>_ w.
     bind_io (case limit of
                None \<Rightarrow> Inr ()
              | Some n \<Rightarrow>
                  if n < 1 then Inl (VemorakSdkError ''limit must be a positive integer'')
                  else Inr (), w) (\<lambda>_ w.
       let query = [(''tenant_id'', JStr tenant_id)]
                   @ (case limit of None \<Rightarrow> [] | Some n \<Rightarrow> [(''limit'', JInt n)])
       in bind_io (prov_request_json c ''GET'' ''/v1/admin/api-keys'' (Some query) None w)
            (\<lambda>data w.
            (bind_err (py_get data ''items'') (\<lambda>items0.
             bind_err (py_iter (py_or items0 (JArr []))) (\<lambda>raw_items.
             bind_err (map_err (\<lambda>i.
                 bind_err (py_getitem i ''id'') (\<lambda>i_id.
                 bind_err (py_getitem i ''tenant_id'') (\<lambda>i_tenant_id.
                 bind_err (py_getitem i ''name'') (\<lambda>i_name.
                 bind_err (py_getitem i ''key_prefix'') (\<lambda>i_key_prefix.
                 bind_err (py_get i ''scopes'') (\<lambda>i_scopes0.
                 bind_err (py_iter (py_or i_scopes0 (JArr []))) (\<lambda>i_scopes.
                 bind_err (py_getitem i ''created_at'') (\<lambda>i_created_at.
                 bind_err (py_get i ''expires_at'') (\<lambda>i_expires_at.
                 bind_err (py_get i ''revoked_at'') (\<lambda>i_revoked_at.
                   Inr \<lparr> pk_id = i_id,
                         pk_tenant_id = i_tenant_id,
                         pk_name = i_name,
                         pk_key_prefix = i_key_prefix,
                         pk_scopes = i_scopes,
                         pk_created_at = i_created_at,
                         pk_expires_at = i_expires_at,
                         pk_revoked_at = i_revoked_at \<rparr>))))))))))
               raw_items) (\<lambda>items.
             bind_err (py_getitem data ''tenant_id'') (\<lambda>r_tenant_id.
               Inr \<lparr> pl_tenant_id = r_tenant_id, pl_items = items \<rparr>)))), w))))"

section \<open>Notions used to state the properties\<close>

text \<open>
  A validation error is an instance of the base class \<^verbatim>\<open>VemorakSdkError\<close>. An operation
  is rejected locally when it raises one and leaves the world as it found it: nothing
  sent, no clock reading, no sleep.
\<close>

fun is_validation_error :: "error + 'a \<Rightarrow> bool" where
  "is_validation_error (Inl (VemorakSdkError msg)) = True"
| "is_validation_error _ = False"

definition rejected_locally :: "(error + 'a) \<times> world \<Rightarrow> world \<Rightarrow> bool" where
  "rejected_locally out w = (is_validation_error (fst out) \<and> snd out = w)"

text \<open>The options \<open>wait_for_batch\<close> works with.\<close>

definition wait_options :: "wait_for_batch_options option \<Rightarrow> wait_for_batch_options" where
  "wait_options opts = (case opts of None \<Rightarrow> WaitForBatchOptions | Some opt \<Rightarrow> opt)"

text \<open>
  \<open>idle_polls n\<close> follows \<open>n\<close> rounds of the polling loop in which nothing is decided:
  the poll returns a proof that has no batch, the clock reading taken after it is not
  past the deadline, and the sleep succeeds. It yields the proofs polled in these rounds
  and the world after them, and \<open>None\<close> when some round within the first \<open>n\<close> goes
  another way.
\<close>

fun idle_polls ::
  "nat \<Rightarrow> vmp_client \<Rightarrow> string \<Rightarrow> wait_for_batch_options \<Rightarrow> pyfloat \<Rightarrow> world \<Rightarrow>
     (proof_response list \<times> world) option" where
  "idle_polls 0 c event_id options deadline w = Some ([], w)"
| "idle_polls (Suc n) c event_id options deadline w =
     (case get_proof c event_id w of
        (Inl e, w1) \<Rightarrow> None
      | (Inr p, w1) \<Rightarrow>
          if pr_batch_id p \<noteq> JNull then None
          else (case time_time w1 of
                  (now, w2) \<Rightarrow>
                    if float_gt now deadline then None
                    else (case int_div_1000 (wfb_poll_interval_ms options) of
                            Inl e \<Rightarrow> None
                          | Inr secs \<Rightarrow>
                              (case time_sleep secs w2 of
                                 (Inl e, w3) \<Rightarrow> None
                               | (Inr _, w3) \<Rightarrow>
                                   map_option (\<lambda>(ps, w'). (p # ps, w'))
                                     (idle_polls n c event_id options deadline w3)))))"

section \<open>Example inputs\<close>

text \<open>
  A server that answers every request with status 200 and an empty body, nothing sent
  yet, a clock that stands still, an operating system that refuses no sleep.
\<close>

definition quiet_world :: world where
  "quiet_world =
     \<lparr> server = (\<lambda>n req. Reply \<lparr> status_code = 200, resp_text = [], resp_json = None \<rparr>),
       sent = [],
       clock = (\<lambda>n. 0),
       clock_reads = 0,
       sleeps = [],
       sleep_refused = (\<lambda>ns. False) \<rparr>"

text \<open>The clients that the constructors build from a base URL, a credential and the
  default timeout, with no guardrail.\<close>

definition example_client :: vmp_client where
  "example_client =
     \<lparr> vmp_base_url = ''https://vmp.example'',
       vmp_api_key = ''sk_test'',
       vmp_tenant_guardrail = None,
       vmp_scope_prefix_guardrail = None,
       vmp_timeout = Finite 15,
       vmp_client =
         \<lparr> hc_base_url = ''https://vmp.example'',
           hc_timeout = Finite 15,
           hc_headers = [(''Accept'', ''application/json''),
                         (''Authorization'', ''Bearer sk_test'')] \<rparr> \<rparr>"

definition other_client :: vmp_client where
  "other_client =
     \<lparr> vmp_base_url = ''https://vmp.example'',
       vmp_api_key = ''sk_other'',
       vmp_tenant_guardrail = None,
       vmp_scope_prefix_guardrail = None,
       vmp_timeout = Finite 15,
       vmp_client =
         \<lparr> hc_base_url = ''https://vmp.example'',
           hc_timeout = Finite 15,
           hc_headers = [(''Accept'', ''application/json''),
                         (''Authorization'', ''Bearer sk_other'')] \<rparr> \<rparr>"

definition example_provisioning_client :: provisioning_client where
  "example_provisioning_client =
     \<lparr> prov_base_url = ''https://vmp.example'',
       prov_token = ''pt_test'',
       prov_timeout = Finite 15,
       prov_client =
         \<lparr> hc_base_url = ''https://vmp.example'',
           hc_timeout = Finite 15,
           hc_headers = [(''Accept'', ''application/json''),
                         (''Authorization'', ''Bearer pt_test'')] \<rparr> \<rparr>"

text \<open>A server that answers 204 with a body of white space only.\<close>

definition blank_reply_world :: world where
  "blank_reply_world =
     quiet_world\<lparr> server := (\<lambda>n req. Reply \<lparr> status_code = 204,
                                               resp_text = [CHR '' '', CHR 0x0A],
                                               resp_json = None \<rparr>) \<rparr>"

text \<open>A server that answers 422 with the error body of the VMP error contract.\<close>

definition invalid_input_body :: string where
  \<open>invalid_input_body = ''{"error":"invalid input","details":{"field":"scope"}}''\<close>

definition invalid_input_response :: http_response where
  "invalid_input_response =
     \<lparr> status_code = 422,
       resp_text = invalid_input_body,
       resp_json = Some (JObj [(''error'', JStr ''invalid input''),
                               (''details'', JObj [(''field'', JStr ''scope'')])]) \<rparr>"

definition invalid_input_world :: world where
  "invalid_input_world = quiet_world\<lparr> server := (\<lambda>n req. Reply invalid_input_response) \<rparr>"

text \<open>An event bundle, a deletion receipt bundle that nests it, and a server that
  serves each under its path.\<close>

definition example_event_bundle :: json where
  "example_event_bundle =
     JObj [(''kind'', JStr ''vmp.event_bundle.v1''),
           (''event'', JObj [(''id'', JStr ''0123456789abcdef''),
                             (''tenant_id'', JStr ''tenant-a''),
                             (''scope'', JStr ''user:1''),
                             (''op'', JStr ''delete''),
                             (''created_at'', JStr ''2026-01-01T00:00:00Z''),
                             (''fields'', JObj []),
                             (''event_hash_hex'', JStr ''ab''),
                             (''prev_hash_hex'', JNull),
                             (''fields_canon'', JStr ''{}''),
                             (''meta_canon'', JStr ''{}''),
                             (''c_fields_hex'', JStr ''cd''),
                             (''batch_id'', JStr ''fedcba9876543210''),
                             (''leaf_index'', JInt 0)]),
           (''proof'', JObj [(''event_id'', JStr ''0123456789abcdef''),
                             (''tenant_id'', JStr ''tenant-a''),
                             (''scope'', JStr ''user:1''),
                             (''batch_id'', JStr ''fedcba9876543210''),
                             (''leaf_index'', JInt 0),
                             (''path'', JArr [JObj [(''sibling_hex'', JStr ''ef''),
                                                    (''sibling_is_left'', JBool True)]]),
                             (''root_hex'', JStr ''99'')]),
           (''recompute'', JObj [(''recomputed_event_hash_hex'', JStr ''ab''),
                                 (''matches_stored'', JBool True)])]"

definition example_deletion_bundle :: json where
  "example_deletion_bundle =
     JObj [(''kind'', JStr ''vmp.deletion_receipt_bundle.v1''),
           (''receipt'', JObj [(''receipt_id'', JStr ''aaaaaaaaaaaaaaaa''),
                               (''tenant_id'', JStr ''tenant-a''),
                               (''scope'', JStr ''user:1''),
                               (''delete_event_id'', JStr ''0123456789abcdef''),
                               (''delete_event_hash_hex'', JStr ''ab''),
                               (''sig_base64'', JStr ''c2ln''),
                               (''pubkey_id'', JStr ''k1''),
                               (''pubkey_base64'', JStr ''cGs=''),
                               (''pubkey_hex'', JStr ''706b''),
                               (''created_at'', JStr ''2026-01-01T00:00:01Z'')]),
           (''verification'', JObj [(''receipt_id'', JStr ''aaaaaaaaaaaaaaaa''),
                                    (''valid'', JBool True)]),
           (''delete_event_bundle'', example_event_bundle)]"

definition bundle_world :: world where
  "bundle_world =
     quiet_world\<lparr> server := (\<lambda>n req.
       if req_path req = ''/v1/events/0123456789abcdef/bundle''
         then Reply \<lparr> status_code = 200, resp_text = ''{...}'',
                      resp_json = Some example_event_bundle \<rparr>
       else if req_path req = ''/v1/deletion-receipts/aaaaaaaaaaaaaaaa/bundle''
         then Reply \<lparr> status_code = 200, resp_text = ''{...}'',
                      resp_json = Some example_deletion_bundle \<rparr>
       else Reply \<lparr> status_code = 404, resp_text = [], resp_json = None \<rparr>) \<rparr>"

text \<open>
  Proof bodies before and after the event is anchored in a batch, with the proof objects
  \<open>get_proof\<close> decodes from them; a server that answers its first \<open>k\<close> requests with the
  pending proof and all later ones with the anchored proof, under a clock whose \<open>n\<close>-th
  reading is \<open>n\<close> seconds.
\<close>

definition pending_proof_body :: json where
  "pending_proof_body =
     JObj [(''event_id'', JStr ''0123456789abcdef''),
           (''tenant_id'', JStr ''tenant-a''),
           (''scope'', JStr ''user:1''),
           (''batch_id'', JNull),
           (''path'', JArr [])]"

definition anchored_proof_body :: json where
  "anchored_proof_body =
     JObj [(''event_id'', JStr ''0123456789abcdef''),
           (''tenant_id'', JStr ''tenant-a''),
           (''scope'', JStr ''user:1''),
           (''batch_id'', JStr ''fedcba9876543210''),
           (''leaf_index'', JInt 0),
           (''leaf_hex'', JStr ''ab''),
           (''root_hex'', JStr ''ab''),
           (''path'', JArr [])]"

definition pending_proof :: proof_response where
  "pending_proof =
     \<lparr> pr_event_id = JStr ''0123456789abcdef'',
       pr_tenant_id = JStr ''tenant-a'',
       pr_scope = JStr ''user:1'',
       pr_batch_id = JNull,
       pr_leaf_index = JNull,
       pr_leaf_hex = JNull,
       pr_root_hex = JNull,
       pr_path = [],
       pr_sig_base64 = JNull,
       pr_pubkey_id = JNull,
       pr_pubkey_base64 = JNull,
       pr_pubkey_hex = JNull,
       pr_batch_created_at = JNull \<rparr>"

definition anchored_proof :: proof_response where
  "anchored_proof =
     \<lparr> pr_event_id = JStr ''0123456789abcdef'',
       pr_tenant_id = JStr ''tenant-a'',
       pr_scope = JStr ''user:1'',
       pr_batch_id = JStr ''fedcba9876543210'',
       pr_leaf_index = JInt 0,
       pr_leaf_hex = JStr ''ab'',
       pr_root_hex = JStr ''ab'',
       pr_path = [],
       pr_sig_base64 = JNull,
       pr_pubkey_id = JNull,
       pr_pubkey_base64 = JNull,
       pr_pubkey_hex = JNull,
       pr_batch_created_at = JNull \<rparr>"

definition anchoring_world :: "nat \<Rightarrow> world" where
  "anchoring_world k =
     \<lparr> server = (\<lambda>n req. Reply \<lparr> status_code = 200, resp_text = ''{...}'',
                                    resp_json = Some (if n < k then pending_proof_body
                                                      else anchored_proof_body) \<rparr>),
       sent = [],
       clock = (\<lambda>n. of_nat n),
       clock_reads = 0,
       sleeps = [],
       sleep_refused = (\<lambda>ns. False) \<rparr>"

text \<open>
  The same server after two pending answers, under a clock that reads 0, then 1/8 and
  15/16 of a second, and 7/4 seconds from the fourth reading on.
\<close>

definition overshoot_world :: world where
  "overshoot_world =
     (anchoring_world 2)\<lparr> clock := (\<lambda>n. if n = 0 then 0 else if n = 1 then 1 / 8
                                       else if n = 2 then 15 / 16 else 7 / 4) \<rparr>"

section \<open>Basic facts\<close>

lemma is_validation_error_iff:
  "is_validation_error r \<longleftrightarrow> (\<exists>msg. r = Inl (VemorakSdkError msg))"
  by (cases r rule: is_validation_error.cases) auto

lemma bind_err_simps [simp]:
  "bind_err (Inl e) f = Inl e"
  "bind_err (Inr v) f = f v"
  by (simp_all add: bind_err_def)

lemma bind_io_simps [simp]:
  "bind_io (Inl e, w) g = (Inl e, w)"
  "bind_io (Inr v, w) g = g v w"
  by (simp_all add: bind_io_def)

lemma bind_io_Inr:
  "bind_io m g = (Inr r, w') \<Longrightarrow> \<exists>v w1. m = (Inr v, w1) \<and> g v w1 = (Inr r, w')"
  by (cases m) (auto simp: bind_io_def split: sum.splits)

lemma bind_err_Inr:
  "bind_err m f = Inr r \<Longrightarrow> \<exists>v. m = Inr v \<and> f v = Inr r"
  by (cases m) (auto simp: bind_err_def)

text \<open>Floor and ceiling of a quotient of numerals, for the evaluation of float
  arithmetic at given numbers.\<close>

lemma floor_rat_numeral_div [simp]:
  "\<lfloor>numeral a / numeral b :: rat\<rfloor> = numeral a div numeral b"
  by (metis floor_divide_of_int_eq of_int_numeral)

lemma floor_rat_neg_numeral_div [simp]:
  "\<lfloor>- (numeral a / numeral b) :: rat\<rfloor> = - numeral a div numeral b"
  by (metis floor_divide_of_int_eq of_int_numeral of_int_minus minus_divide_left)

lemma ceiling_rat_numeral_div [simp]:
  "\<lceil>numeral a / numeral b :: rat\<rceil> = - (- numeral a div numeral b)"
  by (simp add: ceiling_def)

lemma ceiling_rat_neg_numeral_div [simp]:
  "\<lceil>- (numeral a / numeral b) :: rat\<rceil> = - (numeral a div numeral b)"
  by (simp add: ceiling_def)

lemmas float_defs =
  round_float_def float_exponent_def round_half_even_def pow2_def bit_length.simps Let_def
  int_to_float_def int_div_1000_def pytime_from_seconds_def bind_err_def

text \<open>Float arithmetic at the numbers of the examples: \<^verbatim>\<open>800 / 1000.0\<close> is the double next
  to 0.8, and the sum \<^verbatim>\<open>1800000000.0 + 0.002\<close> is rounded to a multiple of \<open>pow2 (- 22)\<close>.\<close>

lemma int_div_1000_examples:
  "int_div_1000 15000 = Inr (Finite 15)"
  "int_div_1000 30000 = Inr (Finite 30)"
  "int_div_1000 1500 = Inr (Finite (3 / 2))"
  "int_div_1000 1000 = Inr (Finite 1)"
  "int_div_1000 750 = Inr (Finite (3 / 4))"
  "int_div_1000 800 = Inr (Finite (3602879701896397 / 4503599627370496))"
  "int_div_1000 100 = Inr (Finite (3602879701896397 / 36028797018963968))"
  "int_div_1000 2 = Inr (Finite (1152921504606847 / 576460752303423488))"
  "int_div_1000 (- 5) = Inr (Finite (- (5764607523034235 / 1152921504606846976)))"
  by (simp_all add: float_defs)

text \<open>The conversion overflows from \<open>2 ^ 1024 - 2 ^ 970\<close> on, the least integer that is
  rounded to \<open>2 ^ 1024\<close>.\<close>

lemma int_div_1000_overflow:
  "int_div_1000 (2 ^ 1024 - 2 ^ 970) = Inl OverflowError"
  "int_div_1000 (10 ^ 309) = Inl OverflowError"
  "int_div_1000 (- (10 ^ 309)) = Inl OverflowError"
  by (simp_all add: float_defs)

lemma int_div_1000_large:
  "int_div_1000 (- (10 ^ 300))
     = Inr (Finite (- 1000000000000000017652801462756379714374878780719864776839443139119744823869255243069012222883470359078822072829219411228534934402712624705615450492327979456500795456339201761949451160807447294527656222743617592048849967890105831362861792425329827928397252374398383022243308510390698430058459037696))"
  by (simp add: float_defs)

lemma pytime_from_seconds_examples:
  "pytime_from_seconds (Finite (3 / 4)) = Some 750000000"
  "pytime_from_seconds (Finite (3602879701896397 / 4503599627370496)) = Some 800000000"
  "pytime_from_seconds (Finite (3602879701896397 / 36028797018963968)) = Some 100000000"
  "pytime_from_seconds (Finite (- 1)) = Some (- 1000000000)"
  "pytime_from_seconds (Finite 10000000000) = None"
  by (simp_all add: float_defs)

lemma round_float_examples:
  "round_float 30 = Finite 30"
  "round_float (3 / 2) = Finite (3 / 2)"
  "round_float 1 = Finite 1"
  "round_float (- (5764607523034235 / 1152921504606846976))
     = Finite (- (5764607523034235 / 1152921504606846976))"
  "round_float (- 1000000000000000017652801462756379714374878780719864776839443139119744823869255243069012222883470359078822072829219411228534934402712624705615450492327979456500795456339201761949451160807447294527656222743617592048849967890105831362861792425329827928397252374398383022243308510390698430058459037696)
     = Finite (- 1000000000000000017652801462756379714374878780719864776839443139119744823869255243069012222883470359078822072829219411228534934402712624705615450492327979456500795456339201761949451160807447294527656222743617592048849967890105831362861792425329827928397252374398383022243308510390698430058459037696)"
  by (simp_all add: float_defs)

lemma float_add_examples:
  "float_add 0 (Finite 30) = Finite 30"
  "float_add 0 (Finite (3 / 2)) = Finite (3 / 2)"
  "float_add 0 (Finite 1) = Finite 1"
  "float_add 0 (Finite (- (5764607523034235 / 1152921504606846976)))
     = Finite (- (5764607523034235 / 1152921504606846976))"
  "float_add 1800000000 (Finite (1152921504606847 / 576460752303423488))
     = Finite (1800000000 + 8389 / 4194304)"
  by (simp_all add: float_defs)

lemmas eval_defs =
  assert_non_empty_def assert_tenant_id_def assert_scope_def assert_scope_prefix_def
  assert_scope_matches_prefix_def assert_uuid_like_def uuid_like_match_def hex_or_dash_def
  assert_limit_def py_strip_def py_isspace_def py_upper_def upper_char_def
  enforce_tenant_def enforce_scope_prefix_def
  httpx_request_def headers_update_def vmp_request_json_def prov_request_json_def
  py_or_def

lemma example_client_init:
  "VmpClient_init ''https://vmp.example/'' ''sk_test'' None 15000 None = Inr example_client"
  by (simp add: VmpClient_init_def example_client_def assert_non_empty_def py_strip_def
      py_isspace_def rstrip_slash_def int_div_1000_examples)

lemma other_client_init:
  "VmpClient_init ''https://vmp.example/'' ''sk_other'' None 15000 None = Inr other_client"
  by (simp add: VmpClient_init_def other_client_def assert_non_empty_def py_strip_def
      py_isspace_def rstrip_slash_def int_div_1000_examples)

lemma example_provisioning_client_init:
  "ProvisioningClient_init ''https://vmp.example/'' ''pt_test'' 15000
     = Inr example_provisioning_client"
  by (simp add: ProvisioningClient_init_def example_provisioning_client_def assert_non_empty_def
      py_strip_def py_isspace_def rstrip_slash_def int_div_1000_examples)

lemma VmpClient_init_guardrail:
  "VmpClient_init base_url api_key tenant_id timeout_ms scope_prefix = Inr c
     \<Longrightarrow> vmp_tenant_guardrail c = tenant_id \<and> vmp_scope_prefix_guardrail c = scope_prefix
         \<and> vmp_api_key c = api_key"
  by (auto simp: VmpClient_init_def bind_err_def split: sum.splits)

section \<open>Local validation\<close>

text \<open>Every validator either passes or raises a validation error.\<close>

lemma assert_non_empty_cases:
  "assert_non_empty name v = Inr () \<or> is_validation_error (assert_non_empty name v)"
  by (simp add: assert_non_empty_def)

lemma assert_tenant_id_cases:
  "assert_tenant_id t = Inr () \<or> is_validation_error (assert_tenant_id t)"
  using assert_non_empty_cases [of "''tenant_id''" t]
  by (auto simp: assert_tenant_id_def is_validation_error_iff)

lemma assert_scope_cases:
  "assert_scope s = Inr () \<or> is_validation_error (assert_scope s)"
  using assert_non_empty_cases [of "''scope''" s]
  by (auto simp: assert_scope_def is_validation_error_iff)

lemma enforce_tenant_cases:
  "enforce_tenant c t = Inr () \<or> is_validation_error (enforce_tenant c t)"
  using assert_tenant_id_cases [of t]
  by (auto simp: enforce_tenant_def is_validation_error_iff split: option.splits)

lemma enforce_scope_prefix_cases:
  "enforce_scope_prefix c s = Inr () \<or> is_validation_error (enforce_scope_prefix c s)"
  by (auto simp: enforce_scope_prefix_def assert_scope_matches_prefix_def split: option.splits)

lemma scope_checks_cases:
  "(case scope_opt of None \<Rightarrow> Inr ()
      | Some sc \<Rightarrow> bind_err (assert_scope sc) (\<lambda>_. enforce_scope_prefix c sc)) = Inr ()
   \<or> is_validation_error (case scope_opt of None \<Rightarrow> Inr ()
      | Some sc \<Rightarrow> bind_err (assert_scope sc) (\<lambda>_. enforce_scope_prefix c sc))"
  using assert_scope_cases enforce_scope_prefix_cases
  by (cases scope_opt) (auto simp: is_validation_error_iff, metis bind_err_simps)

lemma rejected_locally_bind_io:
  "is_validation_error r \<Longrightarrow> rejected_locally (bind_io (r, w) g) w"
  by (auto simp: rejected_locally_def is_validation_error_iff)

lemma rejected_locally_step:
  assumes "r = Inr () \<or> is_validation_error r"
    and "rejected_locally (g () w) w"
  shows "rejected_locally (bind_io (r, w) g) w"
  using assms by (auto simp: rejected_locally_bind_io)

subsection \<open>Pagination limits\<close>

lemma assert_limit_out_of_range:
  "n < 1 \<or> n > 500 \<Longrightarrow> is_validation_error (assert_limit (Some n))"
  by (auto simp: assert_limit_def)

text \<open>\<open>admin_list_events\<close> rejects every limit outside 1..500 before it sends anything.\<close>

lemma admin_list_events_limit_checked:
  assumes "n < 1 \<or> n > 500"
  shows "rejected_locally (admin_list_events c tenant_id scope_opt (Some n) w) w"
  unfolding admin_list_events_def
  by (rule rejected_locally_step [OF enforce_tenant_cases],
      rule rejected_locally_step [OF scope_checks_cases],
      rule rejected_locally_bind_io, rule assert_limit_out_of_range [OF assms])

text \<open>The three other listing operations reject a limit below 1.\<close>

lemma lower_bound_checked:
  assumes "n < 1"
  shows "rejected_locally (admin_list_batches c tenant_id (Some n) w) w"
    and "rejected_locally (admin_list_deletion_receipts c tenant_id scope_opt (Some n) w) w"
    and "rejected_locally (list_api_keys pc tenant_id (Some n) w) w"
proof -
  show "rejected_locally (admin_list_batches c tenant_id (Some n) w) w"
    unfolding admin_list_batches_def using assms
    by (intro rejected_locally_step [OF enforce_tenant_cases]) (simp add: rejected_locally_def)
  show "rejected_locally (admin_list_deletion_receipts c tenant_id scope_opt (Some n) w) w"
    unfolding admin_list_deletion_receipts_def using assms
    by (intro rejected_locally_step [OF enforce_tenant_cases]
          rejected_locally_step [OF scope_checks_cases])
       (simp add: rejected_locally_def)
  show "rejected_locally (list_api_keys pc tenant_id (Some n) w) w"
    unfolding list_api_keys_def using assms
    by (intro rejected_locally_step [OF assert_tenant_id_cases])
       (simp add: rejected_locally_def)
qed

text \<open>
  C1. Every listing operation is to reject a limit outside 1..500 before any network
  call. At the limit 501, with a well-formed tenant, \<open>admin_list_events\<close> does so, while
  \<open>admin_list_batches\<close>, \<open>admin_list_deletion_receipts\<close> and \<open>list_api_keys\<close> each send a
  request that carries \<^verbatim>\<open>limit=501\<close>: their inline test has no upper bound.
\<close>

theorem limit_above_500_reaches_the_server:
  "admin_list_events example_client ''tenant-a'' None (Some 501) quiet_world
     = (Inl (VemorakSdkError ''limit must be within 1..500''), quiet_world)
   \<and> map req_params
        (sent (snd (admin_list_batches example_client ''tenant-a'' (Some 501) quiet_world)))
     = [Some [(''tenant_id'', JStr ''tenant-a''), (''limit'', JInt 501)]]
   \<and> map req_params
        (sent (snd (admin_list_deletion_receipts example_client ''tenant-a'' None (Some 501)
                      quiet_world)))
     = [Some [(''tenant_id'', JStr ''tenant-a''), (''limit'', JInt 501)]]
   \<and> map req_params
        (sent (snd (list_api_keys example_provisioning_client ''tenant-a'' (Some 501)
                      quiet_world)))
     = [Some [(''tenant_id'', JStr ''tenant-a''), (''limit'', JInt 501)]]"
  by (simp add: admin_list_events_def admin_list_batches_def admin_list_deletion_receipts_def
      list_api_keys_def example_client_def example_provisioning_client_def quiet_world_def
      eval_defs)

subsection \<open>The tenant guardrail\<close>

lemma enforce_tenant_mismatch:
  assumes "vmp_tenant_guardrail c = Some t0" and "t0 \<noteq> []" and "t1 \<noteq> t0"
  shows "is_validation_error (enforce_tenant c t1)"
  using assms assert_tenant_id_cases [of t1]
  by (auto simp: enforce_tenant_def is_validation_error_iff)

text \<open>
  C7, as amended. For a client whose tenant guardrail is a non-empty string \<open>t0\<close>, each
  of \<open>ingest\<close>, \<open>delete\<close>, \<open>admin_list_events\<close>, \<open>admin_list_batches\<close> and
  \<open>admin_list_deletion_receipts\<close>, called with a tenant other than \<open>t0\<close>, raises a
  validation error and sends nothing.
\<close>

theorem tenant_guardrail_mismatch_rejected:
  assumes "vmp_tenant_guardrail c = Some t0" and "t0 \<noteq> []" and "t1 \<noteq> t0"
  shows "rejected_locally (ingest c t1 scope event_fields meta op idem w) w
       \<and> rejected_locally (delete c t1 scope target_event_id meta w) w
       \<and> rejected_locally (admin_list_events c t1 scope_opt limit w) w
       \<and> rejected_locally (admin_list_batches c t1 limit w) w
       \<and> rejected_locally (admin_list_deletion_receipts c t1 scope_opt limit w) w"
proof -
  have bad: "is_validation_error (enforce_tenant c t1)"
    by (rule enforce_tenant_mismatch [OF assms])
  show ?thesis
    unfolding ingest_def delete_def admin_list_events_def admin_list_batches_def
      admin_list_deletion_receipts_def
    by (intro conjI rejected_locally_bind_io bad)
qed

theorem tenant_guardrail_mismatch_rejected_witness:
  "vmp_tenant_guardrail (example_client\<lparr> vmp_tenant_guardrail := Some ''tenant-a'' \<rparr>)
     = Some ''tenant-a''
   \<and> ''tenant-a'' \<noteq> [] \<and> ''tenant-b'' \<noteq> ''tenant-a''
   \<and> rejected_locally
        (ingest (example_client\<lparr> vmp_tenant_guardrail := Some ''tenant-a'' \<rparr>)
           ''tenant-b'' ''user:1'' [] None ''write'' None quiet_world) quiet_world
   \<and> rejected_locally
        (delete (example_client\<lparr> vmp_tenant_guardrail := Some ''tenant-a'' \<rparr>)
           ''tenant-b'' ''user:1'' ''0123456789abcdef'' None quiet_world) quiet_world
   \<and> rejected_locally
        (admin_list_events (example_client\<lparr> vmp_tenant_guardrail := Some ''tenant-a'' \<rparr>)
           ''tenant-b'' None (Some 10) quiet_world) quiet_world
   \<and> rejected_locally
        (admin_list_batches (example_client\<lparr> vmp_tenant_guardrail := Some ''tenant-a'' \<rparr>)
           ''tenant-b'' (Some 10) quiet_world) quiet_world
   \<and> rejected_locally
        (admin_list_deletion_receipts
           (example_client\<lparr> vmp_tenant_guardrail := Some ''tenant-a'' \<rparr>)
           ''tenant-b'' None (Some 10) quiet_world) quiet_world"
  using tenant_guardrail_mismatch_rejected
    [of "example_client\<lparr> vmp_tenant_guardrail := Some ''tenant-a'' \<rparr>" "''tenant-a''"
        "''tenant-b''" "''user:1''" "[]" None "''write''" None quiet_world
        "''0123456789abcdef''" None "Some 10"]
  by simp

text \<open>
  The claim as first stated fails where the guardrail is the empty string: the client
  built with \<^verbatim>\<open>tenant_id=""\<close> sends the ingest request of another tenant.
\<close>

theorem tenant_guardrail_empty_counterexample:
  "VmpClient_init ''https://vmp.example/'' ''sk_test'' (Some []) 15000 None
     = Inr (example_client\<lparr> vmp_tenant_guardrail := Some [] \<rparr>)
   \<and> ''tenant-b'' \<noteq> []
   \<and> \<not> rejected_locally
        (ingest (example_client\<lparr> vmp_tenant_guardrail := Some [] \<rparr>)
           ''tenant-b'' ''user:1'' [] None ''write'' None quiet_world) quiet_world
   \<and> map req_path
        (sent (snd (ingest (example_client\<lparr> vmp_tenant_guardrail := Some [] \<rparr>)
                      ''tenant-b'' ''user:1'' [] None ''write'' None quiet_world)))
     = [''/v1/ingest'']"
  by (simp add: VmpClient_init_def rstrip_slash_def int_div_1000_examples ingest_def
      rejected_locally_def
      example_client_def quiet_world_def eval_defs)

text \<open>
  C10. A client constructed with the empty string as tenant guardrail never raises the
  tenant mismatch: its tenant check is the shape check of the tenant alone, the same as
  that of the client with no guardrail, so a well-formed tenant always passes.
\<close>

theorem empty_tenant_guardrail_is_off:
  assumes "VmpClient_init base_url api_key (Some []) timeout_ms scope_prefix = Inr c"
  shows "enforce_tenant c tenant_id = assert_tenant_id tenant_id
         \<and> enforce_tenant c tenant_id
             = enforce_tenant (c\<lparr> vmp_tenant_guardrail := None \<rparr>) tenant_id"
proof -
  have "vmp_tenant_guardrail c = Some []"
    using VmpClient_init_guardrail [OF assms] by simp
  then show ?thesis
    by (cases "assert_tenant_id tenant_id") (simp_all add: enforce_tenant_def)
qed

theorem empty_tenant_guardrail_is_off_witness:
  "VmpClient_init ''https://vmp.example/'' ''sk_test'' (Some []) 15000 None
     = Inr (example_client\<lparr> vmp_tenant_guardrail := Some [] \<rparr>)
   \<and> assert_tenant_id ''tenant-b'' = Inr ()
   \<and> enforce_tenant (example_client\<lparr> vmp_tenant_guardrail := Some [] \<rparr>) ''tenant-b'' = Inr ()"
proof -
  have init: "VmpClient_init ''https://vmp.example/'' ''sk_test'' (Some []) 15000 None
                = Inr (example_client\<lparr> vmp_tenant_guardrail := Some [] \<rparr>)"
    by (simp add: VmpClient_init_def rstrip_slash_def int_div_1000_examples example_client_def
        eval_defs)
  have wf: "assert_tenant_id ''tenant-b'' = Inr ()"
    by (simp add: eval_defs)
  from empty_tenant_guardrail_is_off [OF init, of "''tenant-b''"] init wf
  show ?thesis by simp
qed

subsection \<open>Scope shape and the scope prefix guardrail\<close>

lemma assert_scope_no_separator:
  assumes "CHR '':'' \<notin> set s"
  shows "is_validation_error (assert_scope s)"
  using assms assert_non_empty_cases [of "''scope''" s]
  by (auto simp: assert_scope_def is_validation_error_iff)

lemma enforce_scope_prefix_outside:
  assumes "vmp_scope_prefix_guardrail c = Some p" and "\<not> prefix p s"
  shows "is_validation_error (enforce_scope_prefix c s)"
  using assms by (simp add: enforce_scope_prefix_def assert_scope_matches_prefix_def)

lemma scope_rejected:
  assumes "CHR '':'' \<notin> set scope
           \<or> (vmp_scope_prefix_guardrail c = Some p \<and> \<not> prefix p scope)"
  shows "is_validation_error (bind_err (assert_scope scope) (\<lambda>_. enforce_scope_prefix c scope))"
proof (cases "CHR '':'' \<notin> set scope")
  case True
  then show ?thesis
    using assert_scope_no_separator [of scope] by (auto simp: is_validation_error_iff)
next
  case False
  with assms have "is_validation_error (enforce_scope_prefix c scope)"
    by (simp add: enforce_scope_prefix_outside)
  then show ?thesis
    using assert_scope_cases [of scope] by (auto simp: is_validation_error_iff)
qed

lemma rejected_locally_scope_steps:
  assumes "is_validation_error (bind_err (assert_scope scope) (\<lambda>_. enforce_scope_prefix c scope))"
  shows "rejected_locally
           (bind_io (assert_scope scope, w) (\<lambda>_ w. bind_io (enforce_scope_prefix c scope, w) g)) w"
  using assms assert_scope_cases [of scope]
  by (auto simp: rejected_locally_bind_io)

text \<open>
  C8. A scope with no \<^verbatim>\<open>:\<close> in it, and a scope that does not start with the configured
  scope prefix guardrail, are both rejected by \<open>ingest\<close>, \<open>delete\<close>, \<open>admin_list_events\<close>
  and \<open>admin_list_deletion_receipts\<close> with a validation error, nothing sent, whatever
  the other arguments are.
\<close>

theorem scope_guardrails_rejected:
  assumes "CHR '':'' \<notin> set scope
           \<or> (vmp_scope_prefix_guardrail c = Some p \<and> \<not> prefix p scope)"
  shows "rejected_locally (ingest c tenant_id scope event_fields meta op idem w) w
       \<and> rejected_locally (delete c tenant_id scope target_event_id meta w) w
       \<and> rejected_locally (admin_list_events c tenant_id (Some scope) limit w) w
       \<and> rejected_locally (admin_list_deletion_receipts c tenant_id (Some scope) limit w) w"
proof -
  have bad: "is_validation_error
               (bind_err (assert_scope scope) (\<lambda>_. enforce_scope_prefix c scope))"
    by (rule scope_rejected [OF assms])
  have "rejected_locally (ingest c tenant_id scope event_fields meta op idem w) w"
    unfolding ingest_def
    by (rule rejected_locally_step [OF enforce_tenant_cases])
       (rule rejected_locally_scope_steps [OF bad])
  moreover have "rejected_locally (delete c tenant_id scope target_event_id meta w) w"
    unfolding delete_def
    by (rule rejected_locally_step [OF enforce_tenant_cases])
       (rule rejected_locally_scope_steps [OF bad])
  moreover have "rejected_locally (admin_list_events c tenant_id (Some scope) limit w) w"
    unfolding admin_list_events_def
    by (rule rejected_locally_step [OF enforce_tenant_cases])
       (simp add: rejected_locally_bind_io bad)
  moreover have
    "rejected_locally (admin_list_deletion_receipts c tenant_id (Some scope) limit w) w"
    unfolding admin_list_deletion_receipts_def
    by (rule rejected_locally_step [OF enforce_tenant_cases])
       (simp add: rejected_locally_bind_io bad)
  ultimately show ?thesis by simp
qed

theorem scope_guardrails_rejected_witness:
  "CHR '':'' \<notin> set ''orders''
   \<and> rejected_locally
        (ingest example_client ''tenant-a'' ''orders'' [] None ''write'' None quiet_world)
        quiet_world
   \<and> rejected_locally
        (admin_list_events example_client ''tenant-a'' (Some ''orders'') None quiet_world)
        quiet_world
   \<and> vmp_scope_prefix_guardrail (example_client\<lparr> vmp_scope_prefix_guardrail := Some ''user:'' \<rparr>)
        = Some ''user:''
   \<and> \<not> prefix ''user:'' ''team:42''
   \<and> rejected_locally
        (delete (example_client\<lparr> vmp_scope_prefix_guardrail := Some ''user:'' \<rparr>)
           ''tenant-a'' ''team:42'' ''0123456789abcdef'' None quiet_world) quiet_world
   \<and> rejected_locally
        (admin_list_deletion_receipts
           (example_client\<lparr> vmp_scope_prefix_guardrail := Some ''user:'' \<rparr>)
           ''tenant-a'' (Some ''team:42'') None quiet_world) quiet_world"
  using scope_guardrails_rejected
      [of "''orders''" example_client "[]" "''tenant-a''" "[]" None "''write''" None quiet_world
          "''0123456789abcdef''" None]
    scope_guardrails_rejected
      [of "''team:42''" "example_client\<lparr> vmp_scope_prefix_guardrail := Some ''user:'' \<rparr>"
          "''user:''" "''tenant-a''" "[]" None "''write''" None quiet_world
          "''0123456789abcdef''" None]
  by simp

section \<open>Response classification\<close>

text \<open>What \<open>_request_json\<close> of either client makes of a response, when the server
  answers the next request with \<open>resp\<close> whatever the request is.\<close>

lemma vmp_request_json_reply:
  assumes "server w (length (sent w)) = (\<lambda>req. Reply resp)"
  shows "fst (vmp_request_json c method path query body idem auth w) =
     (if status_code resp < 200 \<or> status_code resp \<ge> 300 then
        Inl (VmpHttpError (status_code resp)
               (case resp_json resp of
                  Some (JObj kvs) \<Rightarrow>
                    (case map_of kvs ''error'' of
                       Some (JStr s) \<Rightarrow> s
                     | _ \<Rightarrow> if py_strip (resp_text resp) \<noteq> [] then py_strip (resp_text resp)
                            else ''unknown error'')
                | _ \<Rightarrow> if py_strip (resp_text resp) \<noteq> [] then py_strip (resp_text resp)
                       else ''unknown error'')
               (resp_text resp)
               (case resp_json resp of
                  Some (JObj kvs) \<Rightarrow> (case map_of kvs ''details'' of Some d \<Rightarrow> d | None \<Rightarrow> JNull)
                | _ \<Rightarrow> JNull))
      else if py_strip (resp_text resp) = [] then Inr (JObj [])
      else (case resp_json resp of None \<Rightarrow> Inl JSONDecodeError | Some v \<Rightarrow> Inr v))"
  using assms
  by (simp add: vmp_request_json_def httpx_request_def Let_def split: option.splits)

lemma prov_request_json_reply:
  assumes "server w (length (sent w)) = (\<lambda>req. Reply resp)"
  shows "fst (prov_request_json pc method path query body w) =
     (if status_code resp < 200 \<or> status_code resp \<ge> 300 then
        Inl (VmpHttpError (status_code resp)
               (case resp_json resp of
                  Some (JObj kvs) \<Rightarrow>
                    (case map_of kvs ''error'' of
                       Some (JStr s) \<Rightarrow> s
                     | _ \<Rightarrow> if py_strip (resp_text resp) \<noteq> [] then py_strip (resp_text resp)
                            else ''unknown error'')
                | _ \<Rightarrow> if py_strip (resp_text resp) \<noteq> [] then py_strip (resp_text resp)
                       else ''unknown error'')
               (resp_text resp)
               (case resp_json resp of
                  Some (JObj kvs) \<Rightarrow> (case map_of kvs ''details'' of Some d \<Rightarrow> d | None \<Rightarrow> JNull)
                | _ \<Rightarrow> JNull))
      else if py_strip (resp_text resp) = [] then Inr (JObj [])
      else (case resp_json resp of None \<Rightarrow> Inl JSONDecodeError | Some v \<Rightarrow> Inr v))"
  using assms
  by (simp add: prov_request_json_def httpx_request_def Let_def split: option.splits)

text \<open>
  C6. When the response has a status code from 200 to 299 and a body that is empty or
  white space only, \<open>_request_json\<close> of either client returns the empty object; it does
  not raise a parse error. Every operation of the two clients decodes its response
  through these two functions.
\<close>

theorem empty_success_body_is_empty_object:
  assumes "server w (length (sent w)) = (\<lambda>req. Reply resp)"
    and "200 \<le> status_code resp" and "status_code resp < 300"
    and "py_strip (resp_text resp) = []"
  shows "fst (vmp_request_json c http_method path query body idem auth w) = Inr (JObj [])
       \<and> fst (prov_request_json pc pmethod ppath pquery pbody w) = Inr (JObj [])"
  using assms(2-4)
  by (simp add: vmp_request_json_reply [OF assms(1)] prov_request_json_reply [OF assms(1)])

theorem empty_success_body_is_empty_object_witness:
  "server blank_reply_world (length (sent blank_reply_world))
     = (\<lambda>req. Reply \<lparr> status_code = 204, resp_text = [CHR '' '', CHR 0x0A], resp_json = None \<rparr>)
   \<and> py_strip [CHR '' '', CHR 0x0A] = []
   \<and> fst (vmp_request_json example_client ''GET'' ''/v1/whoami'' None None None True
            blank_reply_world) = Inr (JObj [])
   \<and> fst (prov_request_json example_provisioning_client ''POST'' ''/v1/admin/api-keys/revoke''
            None (Some (JObj [(''id'', JStr ''0123456789abcdef'')])) blank_reply_world)
       = Inr (JObj [])"
proof -
  have srv: "server blank_reply_world (length (sent blank_reply_world))
     = (\<lambda>req. Reply \<lparr> status_code = 204, resp_text = [CHR '' '', CHR 0x0A], resp_json = None \<rparr>)"
    by (simp add: blank_reply_world_def quiet_world_def)
  have blank: "py_strip [CHR '' '', CHR 0x0A] = []"
    by (simp add: py_strip_def py_isspace_def)
  from empty_success_body_is_empty_object [OF srv, where c = example_client and
      path = "''/v1/whoami''" and http_method = "''GET''" and query = None and body = None
      and idem = None and auth = True and pc = example_provisioning_client
      and pmethod = "''POST''" and ppath = "''/v1/admin/api-keys/revoke''" and pquery = None
      and pbody = "Some (JObj [(''id'', JStr ''0123456789abcdef'')])"] blank srv
  show ?thesis by simp
qed

text \<open>
  C4. When the response has a status code outside 200 to 299, \<open>_request_json\<close> of either
  client raises \<open>VmpHttpError\<close> with that status code and the raw body text. Its message
  is the \<^verbatim>\<open>error\<close> field when the body parses as a JSON object in which that field is a
  string; otherwise it is the trimmed body text, or \<^verbatim>\<open>unknown error\<close> when nothing is
  left of the body after trimming. The \<^verbatim>\<open>details\<close> field of a JSON object body is
  attached. The witness is the 422 response of the error contract, which gives status
  422, message \<^verbatim>\<open>invalid input\<close> and details \<^verbatim>\<open>{"field": "scope"}\<close>.
\<close>

theorem non_2xx_raises_http_error:
  assumes "server w (length (sent w)) = (\<lambda>req. Reply resp)"
    and "status_code resp < 200 \<or> 300 \<le> status_code resp"
  shows "\<exists>msg details.
           fst (vmp_request_json c http_method path query body idem auth w)
             = Inl (VmpHttpError (status_code resp) msg (resp_text resp) details)
         \<and> fst (prov_request_json pc pmethod ppath pquery pbody w)
             = Inl (VmpHttpError (status_code resp) msg (resp_text resp) details)
         \<and> (\<forall>kvs s. resp_json resp = Some (JObj kvs) \<and> map_of kvs ''error'' = Some (JStr s)
               \<longrightarrow> msg = s)
         \<and> (\<forall>kvs d. resp_json resp = Some (JObj kvs) \<and> map_of kvs ''details'' = Some d
               \<longrightarrow> details = d)
         \<and> ((\<nexists>kvs s. resp_json resp = Some (JObj kvs) \<and> map_of kvs ''error'' = Some (JStr s))
               \<longrightarrow> msg = (if py_strip (resp_text resp) = [] then ''unknown error''
                          else py_strip (resp_text resp)))"
  using assms(2)
  by (auto simp: vmp_request_json_reply [OF assms(1)] prov_request_json_reply [OF assms(1)]
        split: option.splits json.splits)

theorem non_2xx_raises_http_error_witness:
  "status_code invalid_input_response = 422
   \<and> fst (vmp_request_json example_client ''POST'' ''/v1/ingest'' None None None True
            invalid_input_world)
       = Inl (VmpHttpError 422 ''invalid input'' invalid_input_body
                (JObj [(''field'', JStr ''scope'')]))
   \<and> fst (prov_request_json example_provisioning_client ''POST'' ''/v1/admin/api-keys'' None None
            invalid_input_world)
       = Inl (VmpHttpError 422 ''invalid input'' invalid_input_body
                (JObj [(''field'', JStr ''scope'')]))"
proof -
  have srv: "server invalid_input_world (length (sent invalid_input_world))
               = (\<lambda>req. Reply invalid_input_response)"
    by (simp add: invalid_input_world_def quiet_world_def)
  have st: "status_code invalid_input_response < 200 \<or> 300 \<le> status_code invalid_input_response"
    by (simp add: invalid_input_response_def)
  have js: "resp_json invalid_input_response
              = Some (JObj [(''error'', JStr ''invalid input''),
                            (''details'', JObj [(''field'', JStr ''scope'')])])"
    by (simp add: invalid_input_response_def)
  have e: "map_of [(''error'', JStr ''invalid input''),
                   (''details'', JObj [(''field'', JStr ''scope'')])] ''error''
             = Some (JStr ''invalid input'')"
    by simp
  have d: "map_of [(''error'', JStr ''invalid input''),
                   (''details'', JObj [(''field'', JStr ''scope'')])] ''details''
             = Some (JObj [(''field'', JStr ''scope'')])"
    by simp
  from non_2xx_raises_http_error [OF srv st, where c = example_client and
      path = "''/v1/ingest''" and http_method = "''POST''" and query = None and body = None
      and idem = None and auth = True and pc = example_provisioning_client
      and pmethod = "''POST''" and ppath = "''/v1/admin/api-keys''" and pquery = None
      and pbody = None]
  obtain msg details where
      v: "fst (vmp_request_json example_client ''POST'' ''/v1/ingest'' None None None True
                 invalid_input_world)
            = Inl (VmpHttpError (status_code invalid_input_response) msg
                     (resp_text invalid_input_response) details)"
    and p: "fst (prov_request_json example_provisioning_client ''POST'' ''/v1/admin/api-keys''
                   None None invalid_input_world)
            = Inl (VmpHttpError (status_code invalid_input_response) msg
                     (resp_text invalid_input_response) details)"
    and m: "\<forall>kvs s. resp_json invalid_input_response = Some (JObj kvs)
                     \<and> map_of kvs ''error'' = Some (JStr s) \<longrightarrow> msg = s"
    and dt: "\<forall>kvs d. resp_json invalid_input_response = Some (JObj kvs)
                     \<and> map_of kvs ''details'' = Some d \<longrightarrow> details = d"
    by blast
  from m js e have "msg = ''invalid input''" by blast
  moreover from dt js d have "details = JObj [(''field'', JStr ''scope'')]" by blast
  ultimately show ?thesis
    using v p by (simp add: invalid_input_response_def)
qed

section \<open>The offline verify endpoints and the bearer credential\<close>

text \<open>
  Both operations pass \<^verbatim>\<open>auth=False\<close>, so the headers of the call hold \<^verbatim>\<open>Accept\<close> alone.
  The request that goes out has the headers of the \<^verbatim>\<open>httpx\<close> client merged in.
\<close>

lemma offline_verify_event_headers:
  "map req_headers (sent (snd (verify_event_bundle_offline c bundle w)))
     = map req_headers (sent w)
       @ [headers_update (hc_headers (vmp_client c)) [(''Accept'', ''application/json'')]]"
  by (auto simp: verify_event_bundle_offline_def vmp_request_json_def httpx_request_def Let_def
        bind_io_def split: http_reply.splits option.splits sum.splits prod.splits)

lemma offline_verify_deletion_headers:
  "map req_headers (sent (snd (verify_deletion_bundle_offline c bundle w)))
     = map req_headers (sent w)
       @ [headers_update (hc_headers (vmp_client c)) [(''Accept'', ''application/json'')]]"
  by (auto simp: verify_deletion_bundle_offline_def vmp_request_json_def httpx_request_def Let_def
        bind_io_def split: http_reply.splits option.splits sum.splits prod.splits)

lemma authorization_of_requests:
  "map (\<lambda>r. map_of (req_headers r) ''Authorization'') rs
     = map (\<lambda>hs. map_of hs ''Authorization'') (map req_headers rs)"
  by simp

text \<open>The call adds no \<^verbatim>\<open>Authorization\<close> header of its own: over a transport client that
  has none by default, the request has none.\<close>

lemma offline_verify_adds_no_authorization:
  assumes "map_of (hc_headers (vmp_client c)) ''Authorization'' = None"
  shows "map (\<lambda>r. map_of (req_headers r) ''Authorization'')
           (sent (snd (verify_event_bundle_offline c bundle w)))
         = map (\<lambda>r. map_of (req_headers r) ''Authorization'') (sent w) @ [None]"
proof -
  have "map_of (filter (\<lambda>kv. fst kv \<noteq> ''Accept'') hs) ''Authorization'' = None"
    if "map_of hs ''Authorization'' = None" for hs :: headers
    using that by (induction hs) (auto split: if_splits)
  from this [OF assms] have
    "map_of (headers_update (hc_headers (vmp_client c)) [(''Accept'', ''application/json'')])
       ''Authorization'' = None"
    by (simp add: headers_update_def map_add_def cong: filter_cong)
  then show ?thesis
    by (simp only: authorization_of_requests offline_verify_event_headers map_append list.map)
qed

text \<open>The client that the constructor builds has the bearer credential among its default
  headers, and so has every request of the offline verify operations.\<close>

lemma offline_verify_carries_api_key:
  assumes "VmpClient_init base_url api_key tenant_id timeout_ms scope_prefix = Inr c"
  shows "map (\<lambda>r. map_of (req_headers r) ''Authorization'')
           (sent (snd (verify_event_bundle_offline c bundle w)))
         = map (\<lambda>r. map_of (req_headers r) ''Authorization'') (sent w)
           @ [Some (''Bearer '' @ api_key)]"
    and "map (\<lambda>r. map_of (req_headers r) ''Authorization'')
           (sent (snd (verify_deletion_bundle_offline c bundle w)))
         = map (\<lambda>r. map_of (req_headers r) ''Authorization'') (sent w)
           @ [Some (''Bearer '' @ api_key)]"
proof -
  from assms have
    "hc_headers (vmp_client c)
       = [(''Accept'', ''application/json''), (''Authorization'', ''Bearer '' @ api_key)]"
    by (auto simp: VmpClient_init_def bind_err_def split: sum.splits)
  then have h: "map_of (headers_update (hc_headers (vmp_client c))
                   [(''Accept'', ''application/json'')]) ''Authorization''
                = Some (''Bearer '' @ api_key)"
    by (simp add: headers_update_def)
  show
    "map (\<lambda>r. map_of (req_headers r) ''Authorization'')
       (sent (snd (verify_event_bundle_offline c bundle w)))
     = map (\<lambda>r. map_of (req_headers r) ''Authorization'') (sent w)
       @ [Some (''Bearer '' @ api_key)]"
    "map (\<lambda>r. map_of (req_headers r) ''Authorization'')
       (sent (snd (verify_deletion_bundle_offline c bundle w)))
     = map (\<lambda>r. map_of (req_headers r) ''Authorization'') (sent w)
       @ [Some (''Bearer '' @ api_key)]"
    using h
    by (simp_all only: authorization_of_requests offline_verify_event_headers
        offline_verify_deletion_headers map_append list.map)
qed

text \<open>
  C2. The offline verify requests are to carry no \<^verbatim>\<open>Authorization\<close> header, so that two
  clients that differ in the API key alone send the same requests. The client built
  with the key \<^verbatim>\<open>sk_test\<close> sends \<^verbatim>\<open>Authorization: Bearer sk_test\<close> with both offline verify
  requests, and the client built with \<^verbatim>\<open>sk_other\<close> sends different requests.
\<close>

theorem offline_verify_sends_authorization:
  "VmpClient_init ''https://vmp.example/'' ''sk_test'' None 15000 None = Inr example_client
   \<and> VmpClient_init ''https://vmp.example/'' ''sk_other'' None 15000 None = Inr other_client
   \<and> map (\<lambda>r. map_of (req_headers r) ''Authorization'')
        (sent (snd (verify_event_bundle_offline example_client [] quiet_world)))
     = [Some ''Bearer sk_test'']
   \<and> map (\<lambda>r. map_of (req_headers r) ''Authorization'')
        (sent (snd (verify_deletion_bundle_offline example_client [] quiet_world)))
     = [Some ''Bearer sk_test'']
   \<and> sent (snd (verify_event_bundle_offline example_client [] quiet_world))
     \<noteq> sent (snd (verify_event_bundle_offline other_client [] quiet_world))
   \<and> sent (snd (verify_deletion_bundle_offline example_client [] quiet_world))
     \<noteq> sent (snd (verify_deletion_bundle_offline other_client [] quiet_world))"
  by (simp add: example_client_init other_client_init verify_event_bundle_offline_def
      verify_deletion_bundle_offline_def example_client_def other_client_def quiet_world_def
      eval_defs)

section \<open>Bundle decoding\<close>

lemma deletion_bundle_nested:
  assumes "get_deletion_receipt_bundle c receipt_id w = (Inr r, w')"
  shows "\<exists>data d.
           vmp_request_json c ''GET'' (''/v1/deletion-receipts/'' @ receipt_id @ ''/bundle'')
             None None None True w = (Inr data, w')
         \<and> py_getitem data ''delete_event_bundle'' = Inr d
         \<and> parse_event_bundle_from_dict d = Inr (db_delete_event_bundle r)"
proof -
  from assms obtain data where
    req: "vmp_request_json c ''GET'' (''/v1/deletion-receipts/'' @ receipt_id @ ''/bundle'')
            None None None True w = (Inr data, w')"
    and body: "bind_err (py_getitem data ''receipt'') (\<lambda>receipt.
        bind_err (py_getitem data ''verification'') (\<lambda>ver.
        bind_err (py_getitem data ''delete_event_bundle'') (\<lambda>delete_event_bundle.
        bind_err (py_getitem receipt ''receipt_id'') (\<lambda>r_receipt_id.
        bind_err (py_getitem receipt ''tenant_id'') (\<lambda>r_tenant_id.
        bind_err (py_getitem receipt ''scope'') (\<lambda>r_scope.
        bind_err (py_getitem receipt ''delete_event_id'') (\<lambda>r_delete_event_id.
        bind_err (py_getitem receipt ''delete_event_hash_hex'') (\<lambda>r_delete_event_hash_hex.
        bind_err (py_getitem receipt ''sig_base64'') (\<lambda>r_sig_base64.
        bind_err (py_getitem receipt ''pubkey_id'') (\<lambda>r_pubkey_id.
        bind_err (py_getitem receipt ''pubkey_base64'') (\<lambda>r_pubkey_base64.
        bind_err (py_getitem receipt ''pubkey_hex'') (\<lambda>r_pubkey_hex.
        bind_err (py_getitem receipt ''created_at'') (\<lambda>r_created_at.
        bind_err (py_getitem ver ''receipt_id'') (\<lambda>v_receipt_id.
        bind_err (py_getitem ver ''valid'') (\<lambda>v_valid.
        bind_err (parse_event_bundle_from_dict delete_event_bundle) (\<lambda>bundle_obj.
        bind_err (py_getitem data ''kind'') (\<lambda>kind.
          Inr \<lparr> db_kind = kind,
                db_receipt =
                  \<lparr> rc_receipt_id = r_receipt_id,
                    rc_tenant_id = r_tenant_id,
                    rc_scope = r_scope,
                    rc_delete_event_id = r_delete_event_id,
                    rc_delete_event_hash_hex = r_delete_event_hash_hex,
                    rc_sig_base64 = r_sig_base64,
                    rc_pubkey_id = r_pubkey_id,
                    rc_pubkey_base64 = r_pubkey_base64,
                    rc_pubkey_hex = r_pubkey_hex,
                    rc_created_at = r_created_at \<rparr>,
                db_verification =
                  \<lparr> ver_receipt_id = v_receipt_id, ver_valid = py_bool v_valid \<rparr>,
                db_delete_event_bundle = bundle_obj \<rparr>))))))))))))))))) = Inr r"
    unfolding get_deletion_receipt_bundle_def
    by (auto dest!: bind_io_Inr)
  from body show ?thesis
    using req by (auto dest!: bind_err_Inr)
qed

text \<open>
  C5. What \<open>get_event_bundle\<close> does with the decoded body of its response is what
  \<open>parse_event_bundle_from_dict\<close> does with a dict: the two field mappings give the same
  result on every value, errors included. And the event bundle inside the result of
  \<open>get_deletion_receipt_bundle\<close> is what \<open>parse_event_bundle_from_dict\<close> makes of the
  \<^verbatim>\<open>delete_event_bundle\<close> entry of the response.
\<close>

theorem event_bundle_decoders_agree:
  "get_event_bundle c event_id w
     = bind_io (assert_uuid_like ''event_id'' event_id, w) (\<lambda>_ w.
       bind_io (vmp_request_json c ''GET'' (''/v1/events/'' @ event_id @ ''/bundle'')
                  None None None True w) (\<lambda>data w.
         (parse_event_bundle_from_dict data, w)))
   \<and> (\<forall>receipt_id r w'. get_deletion_receipt_bundle c receipt_id w = (Inr r, w') \<longrightarrow>
         (\<exists>data d.
            vmp_request_json c ''GET'' (''/v1/deletion-receipts/'' @ receipt_id @ ''/bundle'')
              None None None True w = (Inr data, w')
          \<and> py_getitem data ''delete_event_bundle'' = Inr d
          \<and> parse_event_bundle_from_dict d = Inr (db_delete_event_bundle r)))"
  using deletion_bundle_nested
  by (simp add: get_event_bundle_def parse_event_bundle_from_dict_def)


theorem event_bundle_decoders_agree_witness:
  "(case fst (get_deletion_receipt_bundle example_client ''aaaaaaaaaaaaaaaa'' bundle_world) of
      Inl e \<Rightarrow> False
    | Inr r \<Rightarrow>
        fst (get_event_bundle example_client ''0123456789abcdef'' bundle_world)
          = Inr (db_delete_event_bundle r))"
proof -
  let ?c = example_client
  note defs = bundle_world_def quiet_world_def example_client_def eval_defs
  have req_d: "fst (vmp_request_json ?c ''GET''
                 (''/v1/deletion-receipts/'' @ ''aaaaaaaaaaaaaaaa'' @ ''/bundle'')
                 None None None True bundle_world) = Inr example_deletion_bundle"
    by (simp add: defs)
  have req_e: "fst (vmp_request_json ?c ''GET''
                 (''/v1/events/'' @ ''0123456789abcdef'' @ ''/bundle'')
                 None None None True bundle_world) = Inr example_event_bundle"
    by (simp add: defs)
  have nested: "py_getitem example_deletion_bundle ''delete_event_bundle''
                  = Inr example_event_bundle"
    by (simp add: example_deletion_bundle_def)
  obtain r w' where
    d: "get_deletion_receipt_bundle ?c ''aaaaaaaaaaaaaaaa'' bundle_world = (Inr r, w')"
    by (simp add: get_deletion_receipt_bundle_def parse_event_bundle_from_dict_def
        example_deletion_bundle_def example_event_bundle_def defs)
  note agree = event_bundle_decoders_agree [of ?c "''0123456789abcdef''" bundle_world]
  from agree d obtain data dd where
    "vmp_request_json ?c ''GET'' (''/v1/deletion-receipts/'' @ ''aaaaaaaaaaaaaaaa'' @ ''/bundle'')
       None None None True bundle_world = (Inr data, w')"
    and "py_getitem data ''delete_event_bundle'' = Inr dd"
    and parsed: "parse_event_bundle_from_dict dd = Inr (db_delete_event_bundle r)"
    by blast
  with req_d nested have "dd = example_event_bundle" by simp
  with parsed have "parse_event_bundle_from_dict example_event_bundle
                      = Inr (db_delete_event_bundle r)"
    by simp
  moreover have "fst (get_event_bundle ?c ''0123456789abcdef'' bundle_world)
                   = parse_event_bundle_from_dict example_event_bundle"
    using req_e
    by (subst agree [THEN conjunct1])
       (cases "vmp_request_json ?c ''GET'' (''/v1/events/'' @ ''0123456789abcdef'' @ ''/bundle'')
                 None None None True bundle_world",
        simp add: assert_uuid_like_def assert_non_empty_def uuid_like_match_def hex_or_dash_def
          py_strip_def py_isspace_def)
  ultimately show ?thesis using d by simp
qed

section \<open>Waiting for a batch\<close>

lemma wait_for_batch_unfold:
  assumes "int_div_1000 (wfb_timeout_ms (wait_options opts)) = Inr secs"
  shows "wait_for_batch c event_id opts w
           = wait_for_batch_loop c event_id (wait_options opts)
               (float_add (fst (time_time w)) secs) (snd (time_time w))"
  using assms
  by (simp add: wait_for_batch_def wait_options_def Let_def split: prod.splits)

text \<open>When \<^verbatim>\<open>timeout_ms / 1000.0\<close> raises, \<open>wait_for_batch\<close> raises after its clock reading,
  with no poll made.\<close>

lemma wait_for_batch_overflow:
  assumes "int_div_1000 (wfb_timeout_ms (wait_options opts)) = Inl e"
  shows "wait_for_batch c event_id opts w = Some (Inl e, snd (time_time w))"
  using assms
  by (simp add: wait_for_batch_def wait_options_def Let_def split: prod.splits)

lemma idle_polls_loop:
  "idle_polls n c event_id options deadline w = Some (ps, wn)
     \<Longrightarrow> wait_for_batch_loop c event_id options deadline w
         = wait_for_batch_loop c event_id options deadline wn"
proof (induction n arbitrary: w ps)
  case 0
  then show ?case by simp
next
  case (Suc n)
  from Suc.prems show ?case
    by (subst wait_for_batch_loop.simps)
       (auto split: prod.splits sum.splits if_splits dest: Suc.IH)
qed

lemma idle_polls_no_batch:
  "idle_polls n c event_id options deadline w = Some (ps, wn)
     \<Longrightarrow> list_all (\<lambda>q. pr_batch_id q = JNull) ps \<and> length ps = n"
  by (induction n arbitrary: w ps) (auto split: prod.splits sum.splits if_splits)

lemma loop_returns_batched:
  assumes "get_proof c event_id w = (Inr p, w1)" and "pr_batch_id p \<noteq> JNull"
  shows "wait_for_batch_loop c event_id options deadline w = Some (Inr p, w1)"
  using assms by (subst wait_for_batch_loop.simps) simp

lemma loop_times_out:
  assumes "get_proof c event_id w = (Inr p, w1)" and "pr_batch_id p = JNull"
    and "float_gt (fst (time_time w1)) deadline"
  shows "wait_for_batch_loop c event_id options deadline w
           = Some (Inl (VemorakSdkError (''wait_for_batch timed out for event_id='' @ event_id)),
                   snd (time_time w1))"
  using assms by (subst wait_for_batch_loop.simps) (auto split: prod.splits)

lemma get_proof_clock:
  "clock_reads (snd (get_proof c event_id w)) = clock_reads w
   \<and> sleeps (snd (get_proof c event_id w)) = sleeps w"
  by (auto simp: get_proof_def bind_io_def vmp_request_json_def httpx_request_def Let_def
      split: sum.splits prod.splits http_reply.splits option.splits)

lemmas wait_eval_defs =
  get_proof_def time_time_def time_sleep_def wait_options_def WaitForBatchOptions_def
  anchoring_world_def overshoot_world_def pending_proof_body_def anchored_proof_body_def
  pending_proof_def anchored_proof_def example_client_def int_div_1000_examples
  pytime_from_seconds_examples round_float_examples eval_defs

text \<open>
  C3, as amended. Let \<^verbatim>\<open>timeout_ms / 1000.0\<close> be computed without error, let the first \<open>n\<close>
  polls of \<open>wait_for_batch\<close> each return a proof without a batch, with the clock not
  past the deadline at the check after each and the sleep after each done, and let the
  next poll return the proof \<open>p\<close>. If \<open>p\<close> has a batch, \<open>wait_for_batch\<close> returns \<open>p\<close>, the
  first polled proof whose \<^verbatim>\<open>batch_id\<close> is not \<^verbatim>\<open>None\<close>, whatever the clock reads by then. If
  \<open>p\<close> has no batch and the clock reading taken after this poll is past the deadline,
  \<open>wait_for_batch\<close> raises \<open>VemorakSdkError\<close> with the message
  \<^verbatim>\<open>wait_for_batch timed out for event_id=...\<close>, which is not a \<open>VmpTimeoutError\<close>, the error
  of a transport timeout.
\<close>

theorem wait_for_batch_result:
  assumes "int_div_1000 (wfb_timeout_ms (wait_options opts)) = Inr secs"
    and "idle_polls n c event_id (wait_options opts) (float_add (fst (time_time w)) secs)
           (snd (time_time w)) = Some (ps, wn)"
    and "get_proof c event_id wn = (Inr p, w1)"
  shows "list_all (\<lambda>q. pr_batch_id q = JNull) ps
       \<and> (pr_batch_id p \<noteq> JNull \<longrightarrow> wait_for_batch c event_id opts w = Some (Inr p, w1))
       \<and> (pr_batch_id p = JNull
            \<and> float_gt (fst (time_time w1)) (float_add (fst (time_time w)) secs) \<longrightarrow>
            wait_for_batch c event_id opts w
              = Some (Inl (VemorakSdkError
                             (''wait_for_batch timed out for event_id='' @ event_id)),
                      snd (time_time w1))
            \<and> (\<forall>m. VemorakSdkError (''wait_for_batch timed out for event_id='' @ event_id)
                      \<noteq> VmpTimeoutError m))"
  using idle_polls_no_batch [OF assms(2)] idle_polls_loop [OF assms(2)]
    loop_returns_batched [OF assms(3)] loop_times_out [OF assms(3)]
  by (simp add: wait_for_batch_unfold [OF assms(1)])

theorem wait_for_batch_result_witness:
  "int_div_1000 (wfb_timeout_ms (wait_options None)) = Inr (Finite 30)
   \<and> map_option (\<lambda>out. (fst out, length (sent (snd out)), sleeps (snd out),
                         clock_reads (snd out)))
        (wait_for_batch example_client ''0123456789abcdef'' None (anchoring_world 2))
     = Some (Inr anchored_proof, 3, [800000000, 800000000], 3)
   \<and> map_option (\<lambda>out. (fst out, length (sent (snd out)), sleeps (snd out),
                         clock_reads (snd out)))
        (wait_for_batch example_client ''0123456789abcdef''
           (Some \<lparr> wfb_timeout_ms = 1500, wfb_poll_interval_ms = 100 \<rparr>) (anchoring_world 5))
     = Some (Inl (VemorakSdkError ''wait_for_batch timed out for event_id=0123456789abcdef''),
             2, [100000000], 3)"
proof -
  let ?c = example_client and ?e = "''0123456789abcdef''"
  let ?o = "Some \<lparr> wfb_timeout_ms = 1500, wfb_poll_interval_ms = 100 \<rparr>"
  have conv: "int_div_1000 (wfb_timeout_ms (wait_options None)) = Inr (Finite 30)"
    and conv': "int_div_1000 (wfb_timeout_ms (wait_options ?o)) = Inr (Finite (3 / 2))"
    by (simp_all add: wait_options_def WaitForBatchOptions_def int_div_1000_examples)
  obtain wn where
    idle: "idle_polls (Suc (Suc 0)) ?c ?e (wait_options None)
             (float_add (fst (time_time (anchoring_world 2))) (Finite 30))
             (snd (time_time (anchoring_world 2)))
           = Some ([pending_proof, pending_proof], wn)"
    and last: "fst (get_proof ?c ?e wn) = Inr anchored_proof"
    and obs: "length (sent (snd (get_proof ?c ?e wn))) = 3"
      "sleeps (snd (get_proof ?c ?e wn)) = [800000000, 800000000]"
      "clock_reads (snd (get_proof ?c ?e wn)) = 3"
    by (simp add: wait_eval_defs)
  obtain wm where
    idle': "idle_polls (Suc 0) ?c ?e (wait_options ?o)
             (float_add (fst (time_time (anchoring_world 5))) (Finite (3 / 2)))
             (snd (time_time (anchoring_world 5)))
           = Some ([pending_proof], wm)"
    and last': "fst (get_proof ?c ?e wm) = Inr pending_proof"
    and late: "float_gt (fst (time_time (snd (get_proof ?c ?e wm))))
                 (float_add (fst (time_time (anchoring_world 5))) (Finite (3 / 2)))"
    and obs': "length (sent (snd (time_time (snd (get_proof ?c ?e wm))))) = 2"
      "sleeps (snd (time_time (snd (get_proof ?c ?e wm)))) = [100000000]"
      "clock_reads (snd (time_time (snd (get_proof ?c ?e wm)))) = 3"
    by (simp add: wait_eval_defs)
  have a: "pr_batch_id anchored_proof \<noteq> JNull" and p: "pr_batch_id pending_proof = JNull"
    by (simp_all add: anchored_proof_def pending_proof_def)
  from wait_for_batch_result [OF conv idle, of anchored_proof "snd (get_proof ?c ?e wn)"] last a
  have "wait_for_batch ?c ?e None (anchoring_world 2)
          = Some (Inr anchored_proof, snd (get_proof ?c ?e wn))"
    by (metis prod.collapse)
  moreover
  from wait_for_batch_result [OF conv' idle', of pending_proof "snd (get_proof ?c ?e wm)"]
    last' p late
  have "wait_for_batch ?c ?e ?o (anchoring_world 5)
          = Some (Inl (VemorakSdkError (''wait_for_batch timed out for event_id='' @ ?e)),
                  snd (time_time (snd (get_proof ?c ?e wm))))"
    by (metis prod.collapse)
  ultimately show ?thesis using obs obs' conv by simp
qed

text \<open>
  The claim as first stated has \<open>wait_for_batch\<close> raise whenever no polled proof has a
  batch before \<^verbatim>\<open>timeout_ms\<close> elapses. With a timeout of 1000 ms and a poll interval of
  750 ms, the first two polls bring no batch, the checks after them read 1/8 and 15/16
  of a second against the deadline of 1 second, and the two sleeps take 1.5 seconds; the
  third poll, made after the deadline, brings a batch and its proof is returned.
\<close>

theorem late_proof_returned_counterexample:
  "int_div_1000 1000 = Inr (Finite 1)
   \<and> float_add (fst (time_time overshoot_world)) (Finite 1) = Finite 1
   \<and> map_option fst
        (idle_polls (Suc (Suc 0)) example_client ''0123456789abcdef''
           \<lparr> wfb_timeout_ms = 1000, wfb_poll_interval_ms = 750 \<rparr> (Finite 1)
           (snd (time_time overshoot_world)))
     = Some [pending_proof, pending_proof]
   \<and> pr_batch_id pending_proof = JNull
   \<and> map_option fst
        (wait_for_batch example_client ''0123456789abcdef''
           (Some \<lparr> wfb_timeout_ms = 1000, wfb_poll_interval_ms = 750 \<rparr>) overshoot_world)
     = Some (Inr anchored_proof)
   \<and> map_option (sleeps \<circ> snd)
        (wait_for_batch example_client ''0123456789abcdef''
           (Some \<lparr> wfb_timeout_ms = 1000, wfb_poll_interval_ms = 750 \<rparr>) overshoot_world)
     = Some [750000000, 750000000]
   \<and> map_option (clock_reads \<circ> snd)
        (wait_for_batch example_client ''0123456789abcdef''
           (Some \<lparr> wfb_timeout_ms = 1000, wfb_poll_interval_ms = 750 \<rparr>) overshoot_world)
     = Some 3
   \<and> (1000 * 1000000 :: int) < 750000000 + 750000000
   \<and> float_gt (clock overshoot_world 3) (Finite 1)"
proof -
  let ?c = example_client and ?e = "''0123456789abcdef''"
  let ?opt = "\<lparr> wfb_timeout_ms = 1000, wfb_poll_interval_ms = 750 \<rparr>"
  have conv: "int_div_1000 (wfb_timeout_ms (wait_options (Some ?opt))) = Inr (Finite 1)"
    by (simp add: wait_options_def int_div_1000_examples)
  have dl: "float_add (fst (time_time overshoot_world)) (Finite 1) = Finite 1"
    by (simp add: wait_eval_defs)
  obtain wn where
    idle: "idle_polls (Suc (Suc 0)) ?c ?e ?opt (Finite 1) (snd (time_time overshoot_world))
             = Some ([pending_proof, pending_proof], wn)"
    and last: "fst (get_proof ?c ?e wn) = Inr anchored_proof"
    and obs: "sleeps (snd (get_proof ?c ?e wn)) = [750000000, 750000000]"
      "clock_reads (snd (get_proof ?c ?e wn)) = 3"
    by (simp add: wait_eval_defs)
  have a: "pr_batch_id anchored_proof \<noteq> JNull" and p: "pr_batch_id pending_proof = JNull"
    by (simp_all add: anchored_proof_def pending_proof_def)
  have "wait_for_batch ?c ?e (Some ?opt) overshoot_world
          = wait_for_batch_loop ?c ?e ?opt (Finite 1) wn"
    using idle_polls_loop [OF idle] wait_for_batch_unfold [OF conv, of ?c ?e overshoot_world] dl
    by (simp add: wait_options_def)
  also have "\<dots> = Some (Inr anchored_proof, snd (get_proof ?c ?e wn))"
    using loop_returns_batched [of ?c ?e wn anchored_proof "snd (get_proof ?c ?e wn)"] last a
    by (metis prod.collapse)
  finally show ?thesis
    using idle obs p dl by (simp add: int_div_1000_examples overshoot_world_def)
qed

text \<open>
  C9, as amended. When \<^verbatim>\<open>timeout_ms / 1000.0\<close> is computed without error,
  \<open>wait_for_batch\<close> reads the clock once to fix the deadline and then calls \<open>get_proof\<close>;
  the deadline is compared only after a poll that returned a proof without a batch. So
  when the first proof has a batch it is returned, with one clock reading taken and no
  sleep, also for a timeout that is zero or negative.
\<close>

theorem first_poll_precedes_deadline_check:
  assumes "int_div_1000 (wfb_timeout_ms (wait_options opts)) = Inr secs"
  shows "wait_for_batch c event_id opts w
     = (case get_proof c event_id (snd (time_time w)) of
          (Inl e, w1) \<Rightarrow> Some (Inl e, w1)
        | (Inr p, w1) \<Rightarrow>
            if pr_batch_id p \<noteq> JNull then Some (Inr p, w1)
            else (case time_time w1 of
                    (now, w2) \<Rightarrow>
                      if float_gt now (float_add (fst (time_time w)) secs)
                        then Some (Inl (VemorakSdkError
                                    (''wait_for_batch timed out for event_id='' @ event_id)), w2)
                      else (case int_div_1000 (wfb_poll_interval_ms (wait_options opts)) of
                              Inl e \<Rightarrow> Some (Inl e, w2)
                            | Inr len \<Rightarrow>
                                (case time_sleep len w2 of
                                   (Inl e, w3) \<Rightarrow> Some (Inl e, w3)
                                 | (Inr _, w3) \<Rightarrow>
                                     wait_for_batch_loop c event_id (wait_options opts)
                                       (float_add (fst (time_time w)) secs) w3))))
   \<and> (\<forall>p w1. get_proof c event_id (snd (time_time w)) = (Inr p, w1) \<and> pr_batch_id p \<noteq> JNull
         \<longrightarrow> wait_for_batch c event_id opts w = Some (Inr p, w1)
             \<and> clock_reads w1 = Suc (clock_reads w) \<and> sleeps w1 = sleeps w)"
proof -
  have "clock_reads (snd (get_proof c event_id (snd (time_time w)))) = Suc (clock_reads w)"
       "sleeps (snd (get_proof c event_id (snd (time_time w)))) = sleeps w"
    by (simp_all add: get_proof_clock) (simp_all add: time_time_def)
  then show ?thesis
    by (subst wait_for_batch_unfold [OF assms], subst wait_for_batch_loop.simps)
       (auto simp: loop_returns_batched wait_for_batch_unfold [OF assms])
qed

theorem first_poll_precedes_deadline_check_witness:
  "int_div_1000 (- 5) = Inr (Finite (- (5764607523034235 / 1152921504606846976)))
   \<and> float_gt (clock (anchoring_world 0) 0)
        (float_add (fst (time_time (anchoring_world 0)))
           (Finite (- (5764607523034235 / 1152921504606846976))))
   \<and> map_option (\<lambda>out. (fst out, clock_reads (snd out), sleeps (snd out),
                         map req_path (sent (snd out))))
        (wait_for_batch example_client ''0123456789abcdef''
           (Some \<lparr> wfb_timeout_ms = - 5, wfb_poll_interval_ms = 800 \<rparr>) (anchoring_world 0))
     = Some (Inr anchored_proof, Suc 0, [], [''/v1/proof/0123456789abcdef''])
   \<and> map_option fst
        (wait_for_batch example_client ''0123456789abcdef''
           (Some \<lparr> wfb_timeout_ms = - (10 ^ 300), wfb_poll_interval_ms = 800 \<rparr>)
           (anchoring_world 0))
     = Some (Inr anchored_proof)"
proof -
  let ?o = "Some \<lparr> wfb_timeout_ms = - 5, wfb_poll_interval_ms = 800 \<rparr>"
  let ?o' = "Some \<lparr> wfb_timeout_ms = - (10 ^ 300), wfb_poll_interval_ms = 800 \<rparr>"
  have conv': "int_div_1000 (wfb_timeout_ms (wait_options ?o'))
                 = Inr (Finite (- 1000000000000000017652801462756379714374878780719864776839443139119744823869255243069012222883470359078822072829219411228534934402712624705615450492327979456500795456339201761949451160807447294527656222743617592048849967890105831362861792425329827928397252374398383022243308510390698430058459037696))"
    by (simp only: wait_options_def option.case wait_for_batch_options.simps
        int_div_1000_large)
  have conv: "int_div_1000 (wfb_timeout_ms (wait_options ?o))
                = Inr (Finite (- (5764607523034235 / 1152921504606846976)))"
    by (simp add: wait_options_def int_div_1000_examples)
  obtain w1 where
    first: "get_proof example_client ''0123456789abcdef'' (snd (time_time (anchoring_world 0)))
              = (Inr anchored_proof, w1)"
    and paths: "map req_path (sent w1) = [''/v1/proof/0123456789abcdef'']"
    by (simp add: wait_eval_defs)
  have batch: "pr_batch_id anchored_proof \<noteq> JNull"
    by (simp add: anchored_proof_def)
  have late: "float_gt (clock (anchoring_world 0) 0)
                (float_add (fst (time_time (anchoring_world 0)))
                   (Finite (- (5764607523034235 / 1152921504606846976))))"
    by (simp add: wait_eval_defs)
  from first_poll_precedes_deadline_check
         [OF conv, of example_client "''0123456789abcdef''" "anchoring_world 0"] first batch
  have "wait_for_batch example_client ''0123456789abcdef'' ?o (anchoring_world 0)
          = Some (Inr anchored_proof, w1)
        \<and> clock_reads w1 = Suc (clock_reads (anchoring_world 0))
        \<and> sleeps w1 = sleeps (anchoring_world 0)"
    by blast
  moreover
  from first_poll_precedes_deadline_check
         [OF conv', of example_client "''0123456789abcdef''" "anchoring_world 0"] first batch
  have "wait_for_batch example_client ''0123456789abcdef'' ?o' (anchoring_world 0)
          = Some (Inr anchored_proof, w1)"
    by blast
  ultimately show ?thesis
    using paths late by (simp add: anchoring_world_def int_div_1000_examples)
qed

text \<open>
  The claim as first stated covers every options object. With \<^verbatim>\<open>timeout_ms\<close> equal to minus
  ten to the power 309, an integer beyond the range of a float, the division
  \<^verbatim>\<open>timeout_ms / 1000.0\<close> raises \<^verbatim>\<open>OverflowError\<close> before \<open>get_proof\<close> is called: no request is
  sent, although the first poll would have brought a proof with a batch.
\<close>

theorem first_poll_skipped_counterexample:
  "wait_for_batch example_client ''0123456789abcdef''
     (Some \<lparr> wfb_timeout_ms = - (10 ^ 309), wfb_poll_interval_ms = 800 \<rparr>) (anchoring_world 0)
     = Some (Inl OverflowError, snd (time_time (anchoring_world 0)))
   \<and> sent (snd (time_time (anchoring_world 0))) = []
   \<and> fst (get_proof example_client ''0123456789abcdef'' (snd (time_time (anchoring_world 0))))
     = Inr anchored_proof
   \<and> pr_batch_id anchored_proof \<noteq> JNull"
proof -
  have "int_div_1000
          (wfb_timeout_ms
             (wait_options (Some \<lparr> wfb_timeout_ms = - (10 ^ 309), wfb_poll_interval_ms = 800 \<rparr>)))
          = Inl OverflowError"
    by (simp only: wait_options_def option.case wait_for_batch_options.simps
        int_div_1000_overflow)
  from wait_for_batch_overflow [OF this, of example_client "''0123456789abcdef''"
      "anchoring_world 0"]
  show ?thesis
    by (simp add: get_proof_def time_time_def anchoring_world_def pending_proof_body_def
        anchored_proof_body_def anchored_proof_def example_client_def eval_defs)
qed

end
